theory Spec2Isabelle
  imports Main "HOL-Library.AList"
begin

section \<open>hardhat-verify: the Etherscan verification tasks\<close>

text \<open>
  The theory embeds \<^verbatim>\<open>packages/hardhat-verify/src/internal/tasks/etherscan.ts\<close>, the
  top-level \<^verbatim>\<open>verify\<close> task of the plugin's index file, and the \<^verbatim>\<open>read\<close> operation of
  \<^verbatim>\<open>packages/hardhat-ledger/src/internal/cache.ts\<close>.

  The tasks are asynchronous and effectful. The names of the subtasks
  (\<^verbatim>\<open>TASK_VERIFY_ETHERSCAN_ATTEMPT_VERIFICATION\<close> and the others) are the values of a
  datatype, and the action registered under a name carries the name without its prefix
  (\<open>ATTEMPT_VERIFICATION\<close>). A task is modelled as a function on a state
  made of the outside world (the chain and the block explorer, of an arbitrary type
  \<open>'w\<close>) and the trace of the effects performed so far; it returns the new state
  together with either the error thrown or the value returned.
\<close>

subsection \<open>Data\<close>

type_synonym library_to_address = "(string \<times> string) list"

type_synonym libraries_setting = "(string \<times> (string \<times> string) list) list"

record compiler_input =
  language :: string
  sources :: "(string \<times> string) list"
  settings_other :: string
  settings_libraries :: "libraries_setting option"

record contract_information =
  compilerInput :: compiler_input
  solcLongVersion :: string
  sourceName :: string
  contractName :: string
  contractOutput_abi :: string

record extended_contract_information = contract_information +
  libraries :: libraries_setting
  undetectableLibraries :: "string list"

record verification_response =
  success :: bool
  message :: string

text \<open>
  The response object of \<^verbatim>\<open>getVerificationStatus\<close>: its class is not part of these
  files, so the model keeps what the task reads of it, the message and the answers of
  \<^verbatim>\<open>isFailure()\<close> and \<^verbatim>\<open>isSuccess()\<close>.
\<close>

record verification_status =
  status_message :: string
  isFailure :: bool
  isSuccess :: bool

text \<open>
  The errors thrown by the tasks themselves, one constructor per error class, with the
  constructor arguments of the source. An error thrown by a collaborator whose code is
  not in these files (a rejected promise of the explorer client, of the chain provider,
  of a Hardhat core subtask) is \<open>Collaborator x\<close>. The last two are the errors with which
  the task runner of Hardhat refuses a dispatch, before the action starts, when the
  arguments do not meet the declared parameters: a parameter declared with
  \<^verbatim>\<open>addParam\<close> has no value, or a value is not of the declared type.
\<close>

datatype 'x error =
    MissingAddressError
  | InvalidAddressError string
  | InvalidContractNameError string
  | CompilerVersionsMismatchError "string list" string string
  | ContractNotFoundError string
  | BuildInfoNotFoundError string
  | BuildInfoCompilerVersionMismatchError string string bool string string
  | DeployedBytecodeMismatchError string string
  | UnexpectedNumberOfFilesError
  | VerificationAPIUnexpectedMessageError string
  | ContractVerificationFailedError string "string list"
  | Collaborator 'x
  | MissingTaskArgument string
  | InvalidValueForType string string

datatype subtask =
    TASK_VERIFY_ETHERSCAN_RESOLVE_ARGUMENTS
  | TASK_VERIFY_ETHERSCAN_GET_CONTRACT_INFORMATION
  | TASK_VERIFY_ETHERSCAN_GET_MINIMAL_INPUT
  | TASK_VERIFY_ETHERSCAN_ATTEMPT_VERIFICATION

datatype log_message =
    AlreadyVerified string string
  | SubmittedSourceCode string string string
  | SuccessfullyVerified string string
  | MinimalInputFailed string

text \<open>
  The trace: one event for each dispatch of a subtask through \<^verbatim>\<open>run\<close>, each request to
  the chain provider or to the block explorer, each \<^verbatim>\<open>console.log\<close> and each
  \<^verbatim>\<open>sleep\<close>, in the order in which the task performs them.
\<close>

datatype event =
    Run subtask
  | GetCurrentChainConfig string
  | IsVerified string
  | GetDeployedContractBytecode string string
  | Verify string compiler_input string string string
  | Sleep nat
  | GetVerificationStatus string
  | ConsoleLog log_message

text \<open>The client of the block explorer (class \<^verbatim>\<open>Etherscan\<close>), as the tasks use it.\<close>

record ('w, 'x) etherscan =
  isVerified :: "string \<Rightarrow> 'w \<Rightarrow> ('x + bool) \<times> 'w"
  getContractUrl :: "string \<Rightarrow> string"
  verify :: "string \<Rightarrow> compiler_input \<Rightarrow> string \<Rightarrow> string \<Rightarrow> string \<Rightarrow> 'w \<Rightarrow> ('x + string) \<times> 'w"
  getVerificationStatus :: "string \<Rightarrow> 'w \<Rightarrow> ('x + verification_status) \<times> 'w"

subsection \<open>Tasks as state transformers\<close>

type_synonym ('w, 'x, 'a) task = "'w \<times> event list \<Rightarrow> ('x error + 'a) \<times> 'w \<times> event list"

definition ret :: "'a \<Rightarrow> ('w, 'x, 'a) task" where
  "ret a = (\<lambda>s. (Inr a, s))"

definition throw :: "'x error \<Rightarrow> ('w, 'x, 'a) task" where
  "throw e = (\<lambda>s. (Inl e, s))"

definition andThen :: "('w, 'x, 'a) task \<Rightarrow> ('a \<Rightarrow> ('w, 'x, 'b) task) \<Rightarrow> ('w, 'x, 'b) task" where
  "andThen m f = (\<lambda>s. case m s of (Inl e, s') \<Rightarrow> (Inl e, s') | (Inr a, s') \<Rightarrow> f a s')"

definition emit :: "event \<Rightarrow> ('w, 'x, unit) task" where
  "emit e = (\<lambda>(w, tr). (Inr (), (w, tr @ [e])))"

text \<open>An awaited request to the outside world: the event is recorded, a rejection is thrown.\<close>

definition request :: "event \<Rightarrow> ('w \<Rightarrow> ('x + 'a) \<times> 'w) \<Rightarrow> ('w, 'x, 'a) task" where
  "request e f = (\<lambda>(w, tr). case f w of
      (Inl x, w') \<Rightarrow> (Inl (Collaborator x), (w', tr @ [e]))
    | (Inr a, w') \<Rightarrow> (Inr a, (w', tr @ [e])))"

text \<open>An awaited local computation of a collaborator, which may reject.\<close>

definition compute :: "'x + 'a \<Rightarrow> ('w, 'x, 'a) task" where
  "compute r = (case r of Inl x \<Rightarrow> throw (Collaborator x) | Inr a \<Rightarrow> ret a)"

text \<open>\<^verbatim>\<open>run(SUBTASK, args)\<close>: the dispatch is recorded, then the subtask's action runs.\<close>

definition run :: "subtask \<Rightarrow> ('w, 'x, 'a) task \<Rightarrow> ('w, 'x, 'a) task" where
  "run name action = andThen (emit (Run name)) (\<lambda>_. action)"

subsection \<open>The attempt: submit, wait, read the status (lines 378 to 431)\<close>

text \<open>
  The parameter \<^verbatim>\<open>compilerInput\<close> is \<open>input\<close> here (the name is taken by the
  field of the contract information). The assignment to
  \<^verbatim>\<open>compilerInput.settings.libraries\<close> is modelled on the value that is serialised and
  submitted; \<^verbatim>\<open>JSON.stringify\<close> is left out, the event carries the input.
\<close>

definition ATTEMPT_VERIFICATION ::
  "string \<Rightarrow> compiler_input \<Rightarrow> extended_contract_information \<Rightarrow> ('w, 'x) etherscan \<Rightarrow> string
    \<Rightarrow> ('w, 'x, verification_response) task" where
  "ATTEMPT_VERIFICATION address input contractInformation verificationInterface
      encodedConstructorArguments =
    (let linked = input\<lparr>settings_libraries := Some (libraries contractInformation)\<rparr>;
         fqn = sourceName contractInformation @ '':'' @ contractName contractInformation;
         version = ''v'' @ solcLongVersion contractInformation
     in
     andThen (request (Verify address linked fqn version encodedConstructorArguments)
                (verify verificationInterface address linked fqn version
                   encodedConstructorArguments)) (\<lambda>guid.
     andThen (emit (ConsoleLog (SubmittedSourceCode (sourceName contractInformation)
                (contractName contractInformation) address))) (\<lambda>_.
     andThen (emit (Sleep 700)) (\<lambda>_.
     andThen (request (GetVerificationStatus guid)
                (getVerificationStatus verificationInterface guid)) (\<lambda>verificationStatus.
     if \<not> (isFailure verificationStatus \<or> isSuccess verificationStatus)
     then throw (VerificationAPIUnexpectedMessageError (status_message verificationStatus))
     else
     andThen (if isSuccess verificationStatus
              then emit (ConsoleLog (SuccessfullyVerified (contractName contractInformation)
                     (getContractUrl verificationInterface address)))
              else ret ()) (\<lambda>_.
     ret \<lparr>success = isSuccess verificationStatus,
          message = status_message verificationStatus\<rparr>))))))"

subsection \<open>The collaborators of the tasks\<close>

text \<open>
  The deployed bytecode (class \<^verbatim>\<open>Bytecode\<close>), the build information of an artifact, the
  dependency graph and the compilation job of Hardhat core: their declarations are not
  part of these files, and the records keep what the tasks read of them.
\<close>

record 'x bytecode =
  bytecode_hex :: string
  getMatchingVersions :: "string list \<Rightarrow> 'x + string list"
  isOvm :: bool
  getVersion :: string
  hasVersionRange :: bool

record build_info =
  solcVersion :: string
  compiledBytecode :: "string \<Rightarrow> string"
  information :: "string \<Rightarrow> contract_information"

record resolved_file =
  rf_sourceName :: string
  rf_content :: string

record dependency_graph =
  getResolvedFiles :: "resolved_file list"
  imports_of :: "(string \<times> string) list"

record compilation_job =
  job_files :: "resolved_file list"
  job_solc :: string

record chain_config =
  chain_network :: string
  chainId :: nat
  apiURL :: string
  browserURL :: string

datatype libraries_param = LibrariesObject library_to_address | LibrariesPath "string option"

text \<open>
  \<^verbatim>\<open>VerifyTaskArgs\<close>; the fields \<^verbatim>\<open>constructorArgs\<close> and \<^verbatim>\<open>libraries\<close> carry the names
  that the argument resolution gives them, and \<^verbatim>\<open>address\<close> is \<open>arg_address\<close>.
\<close>

record verify_task_args =
  arg_address :: "string option"
  constructorArgsParams :: "string list"
  constructorArgsModule :: "string option"
  librariesModule :: libraries_param
  contract :: "string option"
  listNetworks :: bool

text \<open>\<^verbatim>\<open>VerificationArgs\<close>, the parsed arguments.\<close>

record verification_args =
  va_address :: string
  va_constructorArgs :: "string list"
  va_libraries :: library_to_address
  va_contractFQN :: "string option"

text \<open>
  The Hardhat runtime environment and the imported helpers. The chain provider and the
  block explorer act on the world; the other collaborators are local computations that
  may reject.
\<close>

record ('w, 'x) hre =
  networkName :: string
  customChains :: "chain_config list"
  apiKey :: string
  getCurrentChainConfig :: "string \<Rightarrow> chain_config list \<Rightarrow> 'w \<Rightarrow> ('x + chain_config) \<times> 'w"
  fromChainConfig :: "string \<Rightarrow> chain_config \<Rightarrow> 'x + ('w, 'x) etherscan"
  getCompilerVersions :: "'x + string list"
  getDeployedContractBytecode :: "string \<Rightarrow> string \<Rightarrow> 'w \<Rightarrow> ('x + 'x bytecode) \<times> 'w"
  isAddress :: "string \<Rightarrow> bool"
  isFullyQualifiedName :: "string \<Rightarrow> bool"
  isReadableFile :: "string \<Rightarrow> bool"
  resolveConstructorArguments :: "string list \<Rightarrow> string option \<Rightarrow> 'x + string list"
  resolveLibraries :: "string option \<Rightarrow> 'x + library_to_address"
  artifactExists :: "string \<Rightarrow> 'x + bool"
  getBuildInfo :: "string \<Rightarrow> 'x + build_info option"
  normalize :: "string \<Rightarrow> string"
  extractInferredContractInformation :: "string list \<Rightarrow> 'x bytecode \<Rightarrow> 'x + contract_information"
  getLibraryInformation ::
    "contract_information \<Rightarrow> library_to_address \<Rightarrow> 'x + libraries_setting \<times> string list"
  getDependencyGraph :: "string list \<Rightarrow> 'x + dependency_graph"
  getCompilationJobForFile :: "dependency_graph \<Rightarrow> resolved_file \<Rightarrow> 'x + compilation_job"
  getCompilerInput :: "compilation_job \<Rightarrow> 'x + compiler_input"
  encodeArguments :: "string \<Rightarrow> string \<Rightarrow> string \<Rightarrow> string list \<Rightarrow> 'x + string"

text \<open>
  Modelled from the spec: \<^verbatim>\<open>extractMatchingContractInformation\<close> of
  \<^verbatim>\<open>../solc/artifacts\<close>, which is not among the source files. The specification
  (4.3, named mode) says: normalize the compiled bytecode of the named contract and
  compare it to the deployed normalized bytecode; a mismatch is reported by the caller.
  The normalizer itself is a parameter.
\<close>

definition extractMatchingContractInformation ::
  "(string \<Rightarrow> string) \<Rightarrow> string \<Rightarrow> build_info \<Rightarrow> 'x bytecode \<Rightarrow> contract_information option" where
  "extractMatchingContractInformation norm contractFQN buildInfo deployedBytecode =
    (if norm (compiledBytecode buildInfo contractFQN) = norm (bytecode_hex deployedBytecode)
     then Some (information buildInfo contractFQN)
     else None)"

subsection \<open>Argument resolution (lines 220 to 268)\<close>

text \<open>
  A subtask is its declared parameters and its action: the task runner checks the
  arguments of a dispatch against the declarations and only then runs the action. Here
  every parameter is optional (lines 221 to 226), and \<^verbatim>\<open>constructorArgs\<close> is declared
  with \<^verbatim>\<open>types.inputFile\<close> (line 223): a value that is given has to be the path of a
  readable file, which is a parameter of the model. The other declared types accept every
  value that the records of the model can hold. In the other subtasks of the file the
  parameters declared with \<^verbatim>\<open>addParam\<close> are always given by the caller, except the
  address of the main task (line 96).
\<close>

definition constructorArgs_accepted :: "('w, 'x) hre \<Rightarrow> verify_task_args \<Rightarrow> bool" where
  "constructorArgs_accepted env taskArgs =
    (case constructorArgsModule taskArgs of
       None \<Rightarrow> True
     | Some path \<Rightarrow> isReadableFile env path)"

definition RESOLVE_ARGUMENTS ::
  "('w, 'x) hre \<Rightarrow> verify_task_args \<Rightarrow> ('w, 'x, verification_args) task" where
  "RESOLVE_ARGUMENTS env taskArgs =
    (if \<not> constructorArgs_accepted env taskArgs
     then throw (InvalidValueForType ''constructorArgs'' (the (constructorArgsModule taskArgs)))
     else
     (case arg_address taskArgs of
       None \<Rightarrow> throw MissingAddressError
     | Some address \<Rightarrow>
         if \<not> isAddress env address then throw (InvalidAddressError address)
         else if contract taskArgs \<noteq> None \<and> \<not> isFullyQualifiedName env (the (contract taskArgs))
         then throw (InvalidContractNameError (the (contract taskArgs)))
         else
         andThen (compute (resolveConstructorArguments env (constructorArgsParams taskArgs)
                    (constructorArgsModule taskArgs))) (\<lambda>constructorArgs.
         andThen (case librariesModule taskArgs of
                    LibrariesObject obj \<Rightarrow> ret obj
                  | LibrariesPath path \<Rightarrow> compute (resolveLibraries env path)) (\<lambda>libs.
         ret \<lparr>va_address = address, va_constructorArgs = constructorArgs,
              va_libraries = libs, va_contractFQN = contract taskArgs\<rparr>))))"

subsection \<open>Contract information (lines 270 to 341)\<close>

definition GET_CONTRACT_INFORMATION ::
  "('w, 'x) hre \<Rightarrow> string option \<Rightarrow> 'x bytecode \<Rightarrow> string list \<Rightarrow> library_to_address
    \<Rightarrow> ('w, 'x, extended_contract_information) task" where
  "GET_CONTRACT_INFORMATION env contractFQN deployedBytecode matchingCompilerVersions libs =
    andThen
      (case contractFQN of
         Some fqn \<Rightarrow>
           andThen (compute (artifactExists env fqn)) (\<lambda>found.
           if \<not> found then throw (ContractNotFoundError fqn)
           else
           andThen (compute (getBuildInfo env fqn)) (\<lambda>buildInfo.
           case buildInfo of
             None \<Rightarrow> throw (BuildInfoNotFoundError fqn)
           | Some bi \<Rightarrow>
               if solcVersion bi \<notin> set matchingCompilerVersions \<and> \<not> isOvm deployedBytecode
               then throw (BuildInfoCompilerVersionMismatchError fqn
                      (getVersion deployedBytecode) (hasVersionRange deployedBytecode)
                      (solcVersion bi) (networkName env))
               else
               (case extractMatchingContractInformation (normalize env) fqn bi deployedBytecode of
                  None \<Rightarrow> throw (DeployedBytecodeMismatchError (networkName env) fqn)
                | Some ci \<Rightarrow> ret ci)))
       | None \<Rightarrow>
           compute (extractInferredContractInformation env matchingCompilerVersions
             deployedBytecode))
      (\<lambda>contractInformation.
    andThen (compute (getLibraryInformation env contractInformation libs)) (\<lambda>(libs', undetectable).
    ret (contract_information.extend contractInformation
           (extended_contract_information.fields libs' undetectable))))"

subsection \<open>Minimal input (lines 343 to 376)\<close>

text \<open>The parameter \<^verbatim>\<open>sourceName\<close> is \<open>target\<close>; \<^verbatim>\<open>cloneDeep\<close> is the identity on values.\<close>

definition GET_MINIMAL_INPUT :: "('w, 'x) hre \<Rightarrow> string \<Rightarrow> ('w, 'x, compiler_input) task" where
  "GET_MINIMAL_INPUT env target =
    andThen (compute (getDependencyGraph env [target])) (\<lambda>dependencyGraph.
    let resolvedFiles =
          filter (\<lambda>resolvedFile. rf_sourceName resolvedFile = target)
            (getResolvedFiles dependencyGraph)
    in
    if length resolvedFiles \<noteq> 1 then throw UnexpectedNumberOfFilesError
    else
    andThen (compute (getCompilationJobForFile env dependencyGraph (hd resolvedFiles)))
      (\<lambda>compilationJob.
    andThen (compute (getCompilerInput env compilationJob)) (\<lambda>minimalInput.
    ret minimalInput)))"

subsection \<open>The main task (lines 95 to 218)\<close>

text \<open>
  The action of the main task is written in five consecutive parts, each one the rest
  of the action from a given line on, with the variables in scope there as parameters:
  from the submissions (lines 176 to 218), from the contract information (lines 152 to
  218), from the matching of the compiler versions (lines 140 to 218), from the question
  whether the contract is verified (lines 124 to 218), and the whole subtask (lines 95
  to 218).
\<close>

definition from_submission ::
  "string \<Rightarrow> ('w, 'x) etherscan \<Rightarrow> extended_contract_information \<Rightarrow> compiler_input \<Rightarrow> string
    \<Rightarrow> ('w, 'x, unit) task" where
  "from_submission address etherscanClient contractInformation minimalInput
      encodedConstructorArguments =
    andThen (run TASK_VERIFY_ETHERSCAN_ATTEMPT_VERIFICATION
               (ATTEMPT_VERIFICATION address minimalInput contractInformation etherscanClient
                  encodedConstructorArguments)) (\<lambda>minimalResponse.
    if success minimalResponse then ret ()
    else
    andThen (emit (ConsoleLog (MinimalInputFailed (contractName contractInformation)))) (\<lambda>_.
    andThen (run TASK_VERIFY_ETHERSCAN_ATTEMPT_VERIFICATION
               (ATTEMPT_VERIFICATION address (compilerInput contractInformation)
                  contractInformation etherscanClient encodedConstructorArguments))
      (\<lambda>fullResponse.
    if success fullResponse then ret ()
    else throw (ContractVerificationFailedError (message fullResponse)
           (undetectableLibraries contractInformation)))))"

definition from_contract_information ::
  "('w, 'x) hre \<Rightarrow> verification_args \<Rightarrow> ('w, 'x) etherscan \<Rightarrow> 'x bytecode \<Rightarrow> string list
    \<Rightarrow> ('w, 'x, unit) task" where
  "from_contract_information env args etherscanClient deployedBytecode matchingCompilerVersions =
    andThen (run TASK_VERIFY_ETHERSCAN_GET_CONTRACT_INFORMATION
               (GET_CONTRACT_INFORMATION env (va_contractFQN args) deployedBytecode
                  matchingCompilerVersions (va_libraries args))) (\<lambda>contractInformation.
    andThen (run TASK_VERIFY_ETHERSCAN_GET_MINIMAL_INPUT
               (GET_MINIMAL_INPUT env (sourceName contractInformation))) (\<lambda>minimalInput.
    andThen (compute (encodeArguments env (contractOutput_abi contractInformation)
               (sourceName contractInformation) (contractName contractInformation)
               (va_constructorArgs args))) (\<lambda>encodedConstructorArguments.
    from_submission (va_address args) etherscanClient contractInformation minimalInput
      encodedConstructorArguments)))"

definition from_matching_versions ::
  "('w, 'x) hre \<Rightarrow> verification_args \<Rightarrow> ('w, 'x) etherscan \<Rightarrow> string list \<Rightarrow> 'x bytecode
    \<Rightarrow> ('w, 'x, unit) task" where
  "from_matching_versions env args etherscanClient configCompilerVersions deployedBytecode =
    andThen (compute (getMatchingVersions deployedBytecode configCompilerVersions))
      (\<lambda>matchingCompilerVersions.
    if length matchingCompilerVersions = 0 \<and> \<not> isOvm deployedBytecode
    then throw (CompilerVersionsMismatchError configCompilerVersions
           (getVersion deployedBytecode) (networkName env))
    else from_contract_information env args etherscanClient deployedBytecode
           matchingCompilerVersions)"

definition from_isVerified ::
  "('w, 'x) hre \<Rightarrow> verification_args \<Rightarrow> ('w, 'x) etherscan \<Rightarrow> ('w, 'x, unit) task" where
  "from_isVerified env args etherscanClient =
    andThen (request (IsVerified (va_address args))
               (isVerified etherscanClient (va_address args))) (\<lambda>verified.
    if verified
    then emit (ConsoleLog (AlreadyVerified (va_address args)
           (getContractUrl etherscanClient (va_address args))))
    else
    andThen (compute (getCompilerVersions env)) (\<lambda>configCompilerVersions.
    andThen (request (GetDeployedContractBytecode (va_address args) (networkName env))
               (getDeployedContractBytecode env (va_address args) (networkName env)))
      (\<lambda>deployedBytecode.
    from_matching_versions env args etherscanClient configCompilerVersions
      deployedBytecode)))"

text \<open>
  The main task declares its address with \<^verbatim>\<open>addParam\<close> (line 96): a dispatch without
  an address is refused by the task runner and the action does not start.
\<close>

definition TASK_VERIFY_ETHERSCAN :: "('w, 'x) hre \<Rightarrow> verify_task_args \<Rightarrow> ('w, 'x, unit) task" where
  "TASK_VERIFY_ETHERSCAN env taskArgs =
    (if arg_address taskArgs = None then throw (MissingTaskArgument ''address'')
     else
     andThen (run TASK_VERIFY_ETHERSCAN_RESOLVE_ARGUMENTS (RESOLVE_ARGUMENTS env taskArgs))
       (\<lambda>args.
     andThen (request (GetCurrentChainConfig (networkName env))
                (getCurrentChainConfig env (networkName env) (customChains env)))
       (\<lambda>chainConfig.
     andThen (compute (fromChainConfig env (apiKey env) chainConfig)) (\<lambda>etherscanClient.
     from_isVerified env args etherscanClient))))"

section \<open>hardhat-verify: the top-level verify task\<close>

text \<open>
  The action of \<^verbatim>\<open>TASK_VERIFY\<close> (lines 86 to 111 of the plugin's index file). The
  subtasks are dispatched by name through \<^verbatim>\<open>run\<close>; what a dispatch does is a parameter,
  acting on a state \<open>'s\<close> of the process and of the outside world and either returning or
  throwing an error \<open>'e\<close>. The record \<^verbatim>\<open>errors\<close> is an association list, in the order in
  which a JavaScript object keeps its keys.
\<close>

record ('s, 'e) dispatcher =
  printSupportedNetworks :: "'s \<Rightarrow> ('e + unit) \<times> 's"
  getVerificationSubtasks :: "'s \<Rightarrow> ('e + string list) \<times> 's"
  runSubtask :: "string \<Rightarrow> verify_task_args \<Rightarrow> 's \<Rightarrow> ('e + unit) \<times> 's"

record ('s, 'e) loop_state =
  errors :: "(string \<times> 'e) list"
  hasErrors :: bool
  world :: 's
  dispatched :: "string list"

text \<open>The \<^verbatim>\<open>for\<close> loop of lines 98 to 105, with its \<^verbatim>\<open>try\<close> and \<^verbatim>\<open>catch\<close>.\<close>

fun run_verification_subtasks ::
  "('s, 'e) dispatcher \<Rightarrow> verify_task_args \<Rightarrow> string list \<Rightarrow> ('s, 'e) loop_state
    \<Rightarrow> ('s, 'e) loop_state" where
  "run_verification_subtasks env taskArgs [] st = st"
| "run_verification_subtasks env taskArgs (verificationSubtask # rest) st =
    (case runSubtask env verificationSubtask taskArgs (world st) of
       (Inr _, w') \<Rightarrow>
         run_verification_subtasks env taskArgs rest
           (st\<lparr>world := w', dispatched := dispatched st @ [verificationSubtask]\<rparr>)
     | (Inl error, w') \<Rightarrow>
         run_verification_subtasks env taskArgs rest
           (st\<lparr>hasErrors := True,
               errors := AList.update verificationSubtask error (errors st),
               world := w', dispatched := dispatched st @ [verificationSubtask]\<rparr>))"

text \<open>
  How the task ends: it returns, it throws (a rejected dispatch outside the loop), or it
  prints the collected errors and ends the process with \<^verbatim>\<open>process.exit(1)\<close>.
\<close>

datatype 'e ending = Returned | Thrown 'e | Exited nat "(string \<times> 'e) list"

definition TASK_VERIFY ::
  "('s, 'e) dispatcher \<Rightarrow> verify_task_args \<Rightarrow> 's \<Rightarrow> 'e ending \<times> ('s, 'e) loop_state" where
  "TASK_VERIFY env taskArgs w =
    (if listNetworks taskArgs
     then (case printSupportedNetworks env w of
             (Inl e, w') \<Rightarrow>
               (Thrown e, \<lparr>errors = [], hasErrors = False, world = w', dispatched = []\<rparr>)
           | (Inr _, w') \<Rightarrow>
               (Returned, \<lparr>errors = [], hasErrors = False, world = w', dispatched = []\<rparr>))
     else
     (case getVerificationSubtasks env w of
        (Inl e, w') \<Rightarrow>
          (Thrown e, \<lparr>errors = [], hasErrors = False, world = w', dispatched = []\<rparr>)
      | (Inr verificationSubtasks, w') \<Rightarrow>
          (let st = run_verification_subtasks env taskArgs verificationSubtasks
                      \<lparr>errors = [], hasErrors = False, world = w', dispatched = []\<rparr>
           in if hasErrors st then (Exited 1 (errors st), st) else (Returned, st))))"

text \<open>
  What each dispatch of the loop answers, in order, the state being passed from one
  dispatch to the next: the reference against which the loop is stated.
\<close>

fun subtask_results ::
  "('s, 'e) dispatcher \<Rightarrow> verify_task_args \<Rightarrow> string list \<Rightarrow> 's \<Rightarrow> ('e + unit) list" where
  "subtask_results env taskArgs [] w = []"
| "subtask_results env taskArgs (t # ts) w =
    (case runSubtask env t taskArgs w of (r, w') \<Rightarrow> r # subtask_results env taskArgs ts w')"

fun thrown_errors :: "string list \<Rightarrow> ('e + unit) list \<Rightarrow> (string \<times> 'e) list" where
  "thrown_errors (t # ts) (Inl e # rs) = (t, e) # thrown_errors ts rs"
| "thrown_errors (t # ts) (Inr _ # rs) = thrown_errors ts rs"
| "thrown_errors _ _ = []"

section \<open>hardhat-ledger: reading the cache of accounts\<close>

text \<open>
  \<^verbatim>\<open>packages/hardhat-ledger/src/internal/cache.ts\<close>. The file system is a state \<open>'fs\<close>;
  \<^verbatim>\<open>fs-extra\<close>, \<^verbatim>\<open>path\<close> and \<^verbatim>\<open>env-paths\<close> are parameters. A rejected promise is \<open>Inl\<close>,
  and \<^verbatim>\<open>undefined\<close> is \<open>None\<close>.
\<close>

record ('fs, 'e, 'j) file_system =
  envPaths_cache :: "string \<Rightarrow> string"
  path_join :: "string \<Rightarrow> string \<Rightarrow> string"
  ensureDir :: "string \<Rightarrow> 'fs \<Rightarrow> ('e + unit) \<times> 'fs"
  access :: "string \<Rightarrow> 'fs \<Rightarrow> ('e + unit) \<times> 'fs"
  readJSON :: "string \<Rightarrow> 'fs \<Rightarrow> ('e + 'j) \<times> 'fs"

definition CACHE_FILE_NAME :: string where
  "CACHE_FILE_NAME = ''accounts.json''"

definition generatePaths :: "('fs, 'e, 'j) file_system \<Rightarrow> string \<Rightarrow> string" where
  "generatePaths io packageName = envPaths_cache io packageName"

definition getCacheDir :: "('fs, 'e, 'j) file_system \<Rightarrow> 'fs \<Rightarrow> ('e + string) \<times> 'fs" where
  "getCacheDir io fs =
    (let cache = generatePaths io ''hardhat'' in
     case ensureDir io cache fs of
       (Inl e, fs1) \<Rightarrow> (Inl e, fs1)
     | (Inr _, fs1) \<Rightarrow> (Inr cache, fs1))"

definition getLedgerCacheDir :: "('fs, 'e, 'j) file_system \<Rightarrow> 'fs \<Rightarrow> ('e + string) \<times> 'fs" where
  "getLedgerCacheDir io fs =
    (case getCacheDir io fs of
       (Inl e, fs1) \<Rightarrow> (Inl e, fs1)
     | (Inr cache, fs1) \<Rightarrow>
         (let compilersCache = path_join io cache ''ledger'' in
          case ensureDir io compilersCache fs1 of
            (Inl e, fs2) \<Rightarrow> (Inl e, fs2)
          | (Inr _, fs2) \<Rightarrow> (Inr compilersCache, fs2)))"

definition getLedgerCacheFile ::
  "('fs, 'e, 'j) file_system \<Rightarrow> string \<Rightarrow> 'fs \<Rightarrow> ('e + string) \<times> 'fs" where
  "getLedgerCacheFile io fileName fs =
    (case getLedgerCacheDir io fs of
       (Inl e, fs1) \<Rightarrow> (Inl e, fs1)
     | (Inr ledgerCacheDir, fs1) \<Rightarrow> (Inr (path_join io ledgerCacheDir fileName), fs1))"

definition read :: "('fs, 'e, 'j) file_system \<Rightarrow> 'fs \<Rightarrow> ('e + 'j option) \<times> 'fs" where
  "read io fs =
    (case getLedgerCacheFile io CACHE_FILE_NAME fs of
       (Inl e, fs1) \<Rightarrow> (Inl e, fs1)
     | (Inr ledgerCacheFile, fs1) \<Rightarrow>
         (case access io ledgerCacheFile fs1 of
            (Inl _, fs2) \<Rightarrow> (Inr None, fs2)
          | (Inr _, fs2) \<Rightarrow>
              (case readJSON io ledgerCacheFile fs2 of
                 (Inl _, fs3) \<Rightarrow> (Inr None, fs3)
               | (Inr file, fs3) \<Rightarrow> (Inr (Some file), fs3))))"

section \<open>Reading a trace\<close>

text \<open>The submission that an attempt makes: the input with the linking information.\<close>

definition submission ::
  "string \<Rightarrow> compiler_input \<Rightarrow> extended_contract_information \<Rightarrow> string \<Rightarrow> event" where
  "submission address input contractInformation encodedConstructorArguments =
     Verify address (input\<lparr>settings_libraries := Some (libraries contractInformation)\<rparr>)
       (sourceName contractInformation @ '':'' @ contractName contractInformation)
       (''v'' @ solcLongVersion contractInformation) encodedConstructorArguments"

definition submitted :: "string \<Rightarrow> extended_contract_information \<Rightarrow> event" where
  "submitted address contractInformation =
     ConsoleLog (SubmittedSourceCode (sourceName contractInformation)
       (contractName contractInformation) address)"

text \<open>The compiler inputs submitted to the explorer, in order.\<close>

fun submissions :: "event list \<Rightarrow> compiler_input list" where
  "submissions [] = []"
| "submissions (Verify a input f v c # es) = input # submissions es"
| "submissions (e # es) = submissions es"

text \<open>The requests to the chain provider and to the block explorer.\<close>

fun is_request :: "event \<Rightarrow> bool" where
  "is_request (GetCurrentChainConfig n) = True"
| "is_request (IsVerified a) = True"
| "is_request (GetDeployedContractBytecode a n) = True"
| "is_request (Verify a i f v c) = True"
| "is_request (GetVerificationStatus g) = True"
| "is_request (Run t) = False"
| "is_request (Sleep n) = False"
| "is_request (ConsoleLog m) = False"

fun is_status_check :: "event \<Rightarrow> bool" where
  "is_status_check (GetVerificationStatus g) = True"
| "is_status_check e = False"

fun is_version_mismatch :: "'x error \<Rightarrow> bool" where
  "is_version_mismatch (CompilerVersionsMismatchError c v n) = True"
| "is_version_mismatch e = False"

text \<open>
  Two properties of a task, used in the proofs: it only appends to the trace, and it
  throws only errors of a given kind.
\<close>

definition appends :: "('w, 'x, 'a) task \<Rightarrow> bool" where
  "appends t \<longleftrightarrow> (\<forall>w tr. \<exists>w' new. snd (t (w, tr)) = (w', tr @ new))"

definition throws_only :: "('x error \<Rightarrow> bool) \<Rightarrow> ('w, 'x, 'a) task \<Rightarrow> bool" where
  "throws_only P t \<longleftrightarrow> (\<forall>s e. fst (t s) = Inl e \<longrightarrow> P e)"

text \<open>The request that submits an input: \<^verbatim>\<open>verificationInterface.verify\<close> on the linked input.\<close>

definition submit ::
  "('w, 'x) etherscan \<Rightarrow> string \<Rightarrow> compiler_input \<Rightarrow> extended_contract_information \<Rightarrow> string
    \<Rightarrow> 'w \<Rightarrow> ('x + string) \<times> 'w" where
  "submit verificationInterface address input contractInformation encodedConstructorArguments =
     verify verificationInterface address
       (input\<lparr>settings_libraries := Some (libraries contractInformation)\<rparr>)
       (sourceName contractInformation @ '':'' @ contractName contractInformation)
       (''v'' @ solcLongVersion contractInformation) encodedConstructorArguments"

section \<open>A concrete environment\<close>

text \<open>
  A project with the contract \<^verbatim>\<open>contracts/Token.sol:Token\<close>, compiled with solc 0.8.19 and
  deployed on a test network, and a block explorer that gives one answer per request
  of the status; its state is the number of requests answered. The theorems are
  evaluated on this environment.
\<close>

definition demo_address :: string where
  "demo_address = ''0x5FbDB2315678afecb367f032d93F642f64180aa3''"

definition demo_status :: "string \<Rightarrow> verification_status" where
  "demo_status m = \<lparr>status_message = m, isFailure = (m = ''Fail - Unable to verify''),
     isSuccess = (m = ''Pass - Verified'')\<rparr>"

definition demo_chain :: chain_config where
  "demo_chain = \<lparr>chain_network = ''sepolia'', chainId = 11155111,
     apiURL = ''https://api-sepolia.etherscan.io/api'',
     browserURL = ''https://sepolia.etherscan.io''\<rparr>"

definition demo_client :: "bool \<Rightarrow> string list \<Rightarrow> chain_config \<Rightarrow> (nat, string) etherscan" where
  "demo_client verified answers chainConfig =
    \<lparr>isVerified = (\<lambda>a w. (Inr verified, w)),
     getContractUrl = (\<lambda>a. browserURL chainConfig @ ''/address/'' @ a @ ''#code''),
     verify = (\<lambda>a i f v c w. (Inr ''guid'', w)),
     getVerificationStatus = (\<lambda>g w.
       (case drop w answers of [] \<Rightarrow> Inl ''no answer'' | m # ms \<Rightarrow> Inr (demo_status m),
        Suc w))\<rparr>"

definition demo_token_file :: resolved_file where
  "demo_token_file = \<lparr>rf_sourceName = ''contracts/Token.sol'', rf_content = ''contract Token {}''\<rparr>"

definition demo_other_file :: resolved_file where
  "demo_other_file = \<lparr>rf_sourceName = ''contracts/Other.sol'', rf_content = ''contract Other {}''\<rparr>"

definition demo_input_of :: "resolved_file list \<Rightarrow> compiler_input" where
  "demo_input_of files = \<lparr>language = ''Solidity'',
     sources = map (\<lambda>f. (rf_sourceName f, rf_content f)) files,
     settings_other = ''{}'', settings_libraries = None\<rparr>"

definition demo_minimal_input :: compiler_input where
  "demo_minimal_input = demo_input_of [demo_token_file]"

definition demo_full_input :: compiler_input where
  "demo_full_input = demo_input_of [demo_token_file, demo_other_file]"

definition demo_contract :: contract_information where
  "demo_contract = \<lparr>compilerInput = demo_full_input,
     solcLongVersion = ''0.8.19+commit.7dd6d404'', sourceName = ''contracts/Token.sol'',
     contractName = ''Token'', contractOutput_abi = ''[]''\<rparr>"

definition demo_information :: extended_contract_information where
  "demo_information = contract_information.extend demo_contract
     (extended_contract_information.fields [] [''contracts/Lib.sol:Lib''])"

definition demo_bytecode :: "string bytecode" where
  "demo_bytecode = \<lparr>bytecode_hex = ''6080604052'',
     getMatchingVersions = (\<lambda>configured. Inr (filter (\<lambda>v. v = ''0.8.19'') configured)),
     isOvm = False, getVersion = ''0.8.19'', hasVersionRange = False\<rparr>"

definition demo_build_info :: build_info where
  "demo_build_info = \<lparr>solcVersion = ''0.8.19'',
     compiledBytecode = (\<lambda>fqn. ''6080604052''),
     information = (\<lambda>fqn. demo_contract)\<rparr>"

definition demo_graph :: dependency_graph where
  "demo_graph = \<lparr>getResolvedFiles = [demo_token_file], imports_of = []\<rparr>"

definition demo_env :: "bool \<Rightarrow> string list \<Rightarrow> (nat, string) hre" where
  "demo_env verified answers =
    \<lparr>networkName = ''sepolia'', customChains = [], apiKey = ''KEY'',
     getCurrentChainConfig = (\<lambda>n cs w. (Inr demo_chain, w)),
     fromChainConfig = (\<lambda>k c. Inr (demo_client verified answers c)),
     getCompilerVersions = Inr [''0.8.19'', ''0.8.20''],
     getDeployedContractBytecode = (\<lambda>a n w. (Inr demo_bytecode, w)),
     isAddress = (\<lambda>a. length a = 42 \<and> take 2 a = ''0x''),
     isFullyQualifiedName = (\<lambda>n. CHR '':'' \<in> set n),
     isReadableFile = (\<lambda>path. path = ''arguments.js''),
     resolveConstructorArguments = (\<lambda>params module. Inr params),
     resolveLibraries = (\<lambda>module. Inr []),
     artifactExists = (\<lambda>fqn. Inr (fqn = ''contracts/Token.sol:Token'')),
     getBuildInfo = (\<lambda>fqn. Inr (Some demo_build_info)),
     normalize = (\<lambda>hex. hex),
     extractInferredContractInformation = (\<lambda>versions deployed. Inr demo_contract),
     getLibraryInformation = (\<lambda>c libs. Inr ([], [''contracts/Lib.sol:Lib''])),
     getDependencyGraph = (\<lambda>names. Inr demo_graph),
     getCompilationJobForFile = (\<lambda>g f. Inr \<lparr>job_files = [f], job_solc = ''0.8.19''\<rparr>),
     getCompilerInput = (\<lambda>job. Inr (demo_input_of (job_files job))),
     encodeArguments = (\<lambda>abi s c args. Inr (concat args))\<rparr>"

definition demo_task_args :: verify_task_args where
  "demo_task_args = \<lparr>arg_address = Some demo_address, constructorArgsParams = [],
     constructorArgsModule = None, librariesModule = LibrariesPath None,
     contract = None, listNetworks = False\<rparr>"

definition demo_args :: verification_args where
  "demo_args = \<lparr>va_address = demo_address, va_constructorArgs = [], va_libraries = [],
     va_contractFQN = None\<rparr>"

text \<open>
  A dispatcher for the top-level task: the Etherscan subtask throws, the Sourcify subtask
  returns; the state counts the dispatches.
\<close>

definition demo_dispatcher :: "(nat, string) dispatcher" where
  "demo_dispatcher =
    \<lparr>printSupportedNetworks = (\<lambda>w. (Inr (), w)),
     getVerificationSubtasks = (\<lambda>w. (Inr [''verify:etherscan'', ''verify:sourcify''], w)),
     runSubtask = (\<lambda>name taskArgs w.
       (if name = ''verify:etherscan'' then Inl ''MissingAddressError'' else Inr (), Suc w))\<rparr>"

text \<open>
  A file system for the cache: the directories and the files that exist. A directory
  cannot be made where a file is; a file is parsed when its text starts with a brace.
\<close>

record demo_fs =
  dirs :: "string list"
  files :: "(string \<times> string) list"

definition demo_io :: "(demo_fs, string, string) file_system" where
  "demo_io =
    \<lparr>envPaths_cache = (\<lambda>packageName. ''/home/user/.cache/'' @ packageName @ ''-nodejs''),
     path_join = (\<lambda>a b. a @ ''/'' @ b),
     ensureDir = (\<lambda>p fs.
       if map_of (files fs) p \<noteq> None then (Inl ''ENOTDIR'', fs)
       else (Inr (), fs\<lparr>dirs := List.insert p (dirs fs)\<rparr>)),
     access = (\<lambda>p fs. (if map_of (files fs) p = None then Inl ''ENOENT'' else Inr (), fs)),
     readJSON = (\<lambda>p fs.
       (case map_of (files fs) p of
          None \<Rightarrow> Inl ''ENOENT''
        | Some content \<Rightarrow> if take 1 content = ''{'' then Inr content else Inl ''SyntaxError'',
        fs))\<rparr>"

section \<open>Properties\<close>

subsection \<open>Running the combinators\<close>

lemma ret_apply: "ret a s = (Inr a, s)"
  by (simp add: ret_def)

lemma throw_apply: "throw e s = (Inl e, s)"
  by (simp add: throw_def)

lemma emit_apply: "emit e (w, tr) = (Inr (), (w, tr @ [e]))"
  by (simp add: emit_def)

lemma andThen_Inl: "m s = (Inl e, s') \<Longrightarrow> andThen m f s = (Inl e, s')"
  by (simp add: andThen_def)

lemma andThen_Inr: "m s = (Inr a, s') \<Longrightarrow> andThen m f s = f a s'"
  by (simp add: andThen_def)

lemma andThen_emit: "andThen (emit e) f (w, tr) = f () (w, tr @ [e])"
  by (simp add: andThen_def emit_def)

lemma run_apply: "run name action (w, tr) = action (w, tr @ [Run name])"
  by (simp add: run_def andThen_emit)

lemma request_Inl:
  "f w = (Inl x, w') \<Longrightarrow> request e f (w, tr) = (Inl (Collaborator x), (w', tr @ [e]))"
  by (simp add: request_def)

lemma request_Inr: "f w = (Inr a, w') \<Longrightarrow> request e f (w, tr) = (Inr a, (w', tr @ [e]))"
  by (simp add: request_def)

lemma compute_Inl: "compute (Inl x) s = (Inl (Collaborator x), s)"
  by (simp add: compute_def throw_def)

lemma compute_Inr: "compute (Inr a) s = (Inr a, s)"
  by (simp add: compute_def ret_def)

subsection \<open>One attempt\<close>

lemma ATTEMPT_rejected:
  assumes "submit vi address input ci enc w = (Inl x, w1)"
  shows "ATTEMPT_VERIFICATION address input ci vi enc (w, tr) =
           (Inl (Collaborator x), (w1, tr @ [submission address input ci enc]))"
  using assms
  by (simp add: ATTEMPT_VERIFICATION_def Let_def submit_def submission_def request_Inl andThen_Inl)

lemma ATTEMPT_status_rejected:
  assumes "submit vi address input ci enc w = (Inr guid, w1)"
    and "getVerificationStatus vi guid w1 = (Inl x, w2)"
  shows "ATTEMPT_VERIFICATION address input ci vi enc (w, tr) =
           (Inl (Collaborator x), (w2, tr @ [submission address input ci enc,
              submitted address ci, Sleep 700, GetVerificationStatus guid]))"
  using assms
  by (simp add: ATTEMPT_VERIFICATION_def Let_def submit_def submission_def submitted_def
      request_Inl request_Inr andThen_Inl andThen_Inr andThen_emit)

lemma ATTEMPT_status:
  assumes "submit vi address input ci enc w = (Inr guid, w1)"
    and "getVerificationStatus vi guid w1 = (Inr st, w2)"
  shows "ATTEMPT_VERIFICATION address input ci vi enc (w, tr) =
     (if \<not> (isFailure st \<or> isSuccess st)
      then (Inl (VerificationAPIUnexpectedMessageError (status_message st)),
            (w2, tr @ [submission address input ci enc, submitted address ci, Sleep 700,
                       GetVerificationStatus guid]))
      else (Inr \<lparr>success = isSuccess st, message = status_message st\<rparr>,
            (w2, tr @ [submission address input ci enc, submitted address ci, Sleep 700,
                       GetVerificationStatus guid] @
                 (if isSuccess st
                  then [ConsoleLog (SuccessfullyVerified (contractName ci)
                          (getContractUrl vi address))]
                  else []))))"
  using assms
  by (simp add: ATTEMPT_VERIFICATION_def Let_def submit_def submission_def submitted_def
      request_Inr andThen_Inr andThen_emit throw_apply ret_apply emit_apply)

lemma submissions_append: "submissions (xs @ ys) = submissions xs @ submissions ys"
  by (induction xs rule: submissions.induct) simp_all

lemma ATTEMPT_trace:
  "\<exists>w' new. snd (ATTEMPT_VERIFICATION address input ci vi enc (w, tr)) = (w', tr @ new) \<and>
     submissions new = [input\<lparr>settings_libraries := Some (libraries ci)\<rparr>]"
proof -
  obtain r1 w1 where v: "submit vi address input ci enc w = (r1, w1)" by force
  show ?thesis
  proof (cases r1)
    case (Inl x)
    with v show ?thesis
      by (simp add: ATTEMPT_rejected submission_def)
  next
    case (Inr guid)
    obtain r2 w2 where g: "getVerificationStatus vi guid w1 = (r2, w2)" by force
    show ?thesis
    proof (cases r2)
      case (Inl x)
      with v g Inr show ?thesis
        by (simp add: ATTEMPT_status_rejected submission_def submitted_def)
    next
      case st: (Inr st)
      with v g Inr show ?thesis
        by (simp add: ATTEMPT_status submission_def submitted_def)
    qed
  qed
qed

subsection \<open>Tasks only append to the trace\<close>

lemma appends_ret: "appends (ret a)"
  by (simp add: appends_def ret_def)

lemma appends_throw: "appends (throw e)"
  by (simp add: appends_def throw_def)

lemma appends_emit: "appends (emit e)"
  by (simp add: appends_def emit_def)

lemma appends_request: "appends (request e f)"
  by (auto simp add: appends_def request_def split: prod.splits sum.splits)

lemma appends_compute: "appends (compute r)"
  by (cases r) (simp_all add: appends_def compute_def ret_def throw_def)

lemma appends_andThen:
  assumes "appends m" and "\<And>a. appends (f a)"
  shows "appends (andThen m f)"
  unfolding appends_def
proof (intro allI)
  fix w tr
  obtain r w1 tr1 where m: "m (w, tr) = (r, (w1, tr1))"
    by (metis prod.collapse)
  from assms(1) [unfolded appends_def, rule_format, of w tr] m
  obtain new1 where tr1: "tr1 = tr @ new1"
    by auto
  show "\<exists>w' new. snd (andThen m f (w, tr)) = (w', tr @ new)"
  proof (cases r)
    case (Inl e)
    with m tr1 show ?thesis by (simp add: andThen_def)
  next
    case (Inr a)
    from assms(2) [of a, unfolded appends_def, rule_format, of w1 tr1]
    obtain w2 new2 where "snd (f a (w1, tr1)) = (w2, tr1 @ new2)"
      by auto
    with m tr1 Inr show ?thesis by (simp add: andThen_def)
  qed
qed

lemma appends_run: "appends action \<Longrightarrow> appends (run name action)"
  by (simp add: run_def appends_andThen appends_emit)

lemma appends_if: "appends a \<Longrightarrow> appends b \<Longrightarrow> appends (if c then a else b)"
  by simp

lemma appends_option: "appends a \<Longrightarrow> (\<And>x. appends (f x)) \<Longrightarrow> appends (case v of None \<Rightarrow> a | Some x \<Rightarrow> f x)"
  by (simp split: option.split)

lemma appends_prod: "(\<And>x y. appends (f x y)) \<Longrightarrow> appends (case p of (x, y) \<Rightarrow> f x y)"
  by (simp split: prod.split)

lemma appends_libraries_param:
  "(\<And>x. appends (f x)) \<Longrightarrow> (\<And>x. appends (g x))
    \<Longrightarrow> appends (case p of LibrariesObject x \<Rightarrow> f x | LibrariesPath x \<Rightarrow> g x)"
  by (simp split: libraries_param.split)

lemmas appends_intros = appends_ret appends_throw appends_emit appends_request appends_compute
  appends_andThen appends_run appends_if appends_option appends_prod appends_libraries_param

lemma appends_ATTEMPT_VERIFICATION: "appends (ATTEMPT_VERIFICATION address input ci vi enc)"
  unfolding ATTEMPT_VERIFICATION_def Let_def by (intro appends_intros)

lemma appends_from_submission: "appends (from_submission address ec ci minimalInput enc)"
  unfolding from_submission_def by (intro appends_intros appends_ATTEMPT_VERIFICATION)

lemma appends_GET_CONTRACT_INFORMATION:
  "appends (GET_CONTRACT_INFORMATION env fqn db matching libs)"
  unfolding GET_CONTRACT_INFORMATION_def by (intro appends_intros)

lemma appends_GET_MINIMAL_INPUT: "appends (GET_MINIMAL_INPUT env target)"
  unfolding GET_MINIMAL_INPUT_def Let_def by (intro appends_intros)

lemma appends_from_contract_information:
  "appends (from_contract_information env args ec db matching)"
  unfolding from_contract_information_def
  by (intro appends_intros appends_GET_CONTRACT_INFORMATION appends_GET_MINIMAL_INPUT
      appends_from_submission)

lemma appends_from_matching_versions:
  "appends (from_matching_versions env args ec cfg db)"
  unfolding from_matching_versions_def
  by (intro appends_intros appends_from_contract_information)

subsection \<open>Tasks that throw only errors of a kind\<close>

lemma throws_only_ret: "throws_only P (ret a)"
  by (simp add: throws_only_def ret_def)

lemma throws_only_throw: "P e \<Longrightarrow> throws_only P (throw e)"
  by (simp add: throws_only_def throw_def)

lemma throws_only_emit: "throws_only P (emit e)"
  by (simp add: throws_only_def emit_def split: prod.splits)

lemma throws_only_request: "(\<And>x. P (Collaborator x)) \<Longrightarrow> throws_only P (request e f)"
  by (auto simp add: throws_only_def request_def split: prod.splits sum.splits)

lemma throws_only_compute: "(\<And>x. P (Collaborator x)) \<Longrightarrow> throws_only P (compute r)"
  by (cases r) (simp_all add: throws_only_def compute_def ret_def throw_def)

lemma throws_only_andThen:
  "throws_only P m \<Longrightarrow> (\<And>a. throws_only P (f a)) \<Longrightarrow> throws_only P (andThen m f)"
  by (auto simp add: throws_only_def andThen_def split: prod.splits sum.splits)
     (metis fst_conv)+

lemma throws_only_run: "throws_only P action \<Longrightarrow> throws_only P (run name action)"
  by (simp add: run_def throws_only_andThen throws_only_emit)

lemma throws_only_if: "throws_only P a \<Longrightarrow> throws_only P b \<Longrightarrow> throws_only P (if c then a else b)"
  by simp

lemma throws_only_option:
  "throws_only P a \<Longrightarrow> (\<And>x. throws_only P (f x))
    \<Longrightarrow> throws_only P (case v of None \<Rightarrow> a | Some x \<Rightarrow> f x)"
  by (simp split: option.split)

lemma throws_only_prod:
  "(\<And>x y. throws_only P (f x y)) \<Longrightarrow> throws_only P (case p of (x, y) \<Rightarrow> f x y)"
  by (simp split: prod.split)

lemma throws_only_libraries_param:
  "(\<And>x. throws_only P (f x)) \<Longrightarrow> (\<And>x. throws_only P (g x))
    \<Longrightarrow> throws_only P (case p of LibrariesObject x \<Rightarrow> f x | LibrariesPath x \<Rightarrow> g x)"
  by (simp split: libraries_param.split)

lemmas throws_only_intros = throws_only_ret throws_only_emit throws_only_request
  throws_only_compute throws_only_andThen throws_only_run throws_only_if throws_only_option
  throws_only_prod

lemma no_mismatch_ATTEMPT_VERIFICATION:
  "throws_only (\<lambda>e. \<not> is_version_mismatch e) (ATTEMPT_VERIFICATION address input ci vi enc)"
  unfolding ATTEMPT_VERIFICATION_def Let_def
  by (intro throws_only_intros throws_only_throw) simp_all

lemma no_mismatch_from_submission:
  "throws_only (\<lambda>e. \<not> is_version_mismatch e) (from_submission address ec ci minimalInput enc)"
  unfolding from_submission_def
  by (intro throws_only_intros throws_only_throw no_mismatch_ATTEMPT_VERIFICATION) simp_all

lemma no_mismatch_GET_CONTRACT_INFORMATION:
  "throws_only (\<lambda>e. \<not> is_version_mismatch e) (GET_CONTRACT_INFORMATION env fqn db matching libs)"
  unfolding GET_CONTRACT_INFORMATION_def
  by (intro throws_only_intros throws_only_throw) simp_all

lemma no_mismatch_GET_MINIMAL_INPUT:
  "throws_only (\<lambda>e. \<not> is_version_mismatch e) (GET_MINIMAL_INPUT env target)"
  unfolding GET_MINIMAL_INPUT_def Let_def
  by (intro throws_only_intros throws_only_throw) simp_all

lemma no_mismatch_from_contract_information:
  "throws_only (\<lambda>e. \<not> is_version_mismatch e) (from_contract_information env args ec db matching)"
  unfolding from_contract_information_def
  by (intro throws_only_intros no_mismatch_GET_CONTRACT_INFORMATION
      no_mismatch_GET_MINIMAL_INPUT no_mismatch_from_submission) simp_all

subsection \<open>Argument resolution is local\<close>

lemma RESOLVE_ARGUMENTS_state: "snd (RESOLVE_ARGUMENTS env taskArgs s) = s"
  by (auto simp add: RESOLVE_ARGUMENTS_def andThen_def compute_def ret_def throw_def
      split: option.splits sum.splits libraries_param.splits)

lemma RESOLVE_ARGUMENTS_result:
  "fst (RESOLVE_ARGUMENTS env taskArgs s) = fst (RESOLVE_ARGUMENTS env taskArgs s')"
  by (auto simp add: RESOLVE_ARGUMENTS_def andThen_def compute_def ret_def throw_def
      split: option.splits sum.splits libraries_param.splits)

lemma RESOLVE_ARGUMENTS_address:
  "fst (RESOLVE_ARGUMENTS env taskArgs s) = Inr args \<Longrightarrow> arg_address taskArgs \<noteq> None"
  by (auto simp add: RESOLVE_ARGUMENTS_def throw_def split: if_splits option.splits)

subsection \<open>Unfolding the combinators on a concrete state\<close>

lemmas task_defs = andThen_def ret_def throw_def emit_def request_def compute_def run_def

subsection \<open>The main task up to the question whether the contract is verified\<close>

lemma TASK_VERIFY_ETHERSCAN_resolved:
  assumes "fst (RESOLVE_ARGUMENTS env taskArgs s0) = Inr args"
  shows "TASK_VERIFY_ETHERSCAN env taskArgs (w, tr) =
    andThen (request (GetCurrentChainConfig (networkName env))
               (getCurrentChainConfig env (networkName env) (customChains env)))
      (\<lambda>chainConfig.
    andThen (compute (fromChainConfig env (apiKey env) chainConfig)) (\<lambda>etherscanClient.
    from_isVerified env args etherscanClient))
    (w, tr @ [Run TASK_VERIFY_ETHERSCAN_RESOLVE_ARGUMENTS])"
proof -
  let ?s = "(w, tr @ [Run TASK_VERIFY_ETHERSCAN_RESOLVE_ARGUMENTS])"
  have "fst (RESOLVE_ARGUMENTS env taskArgs ?s) = Inr args"
    using assms RESOLVE_ARGUMENTS_result [of env taskArgs ?s s0] by simp
  then have "RESOLVE_ARGUMENTS env taskArgs ?s = (Inr args, ?s)"
    using RESOLVE_ARGUMENTS_state [of env taskArgs ?s] by (metis prod.collapse)
  then show ?thesis
    using RESOLVE_ARGUMENTS_address [OF assms]
    by (auto simp add: TASK_VERIFY_ETHERSCAN_def andThen_Inr run_apply)
qed

lemma TASK_VERIFY_ETHERSCAN_refused:
  "arg_address taskArgs = None \<Longrightarrow>
    TASK_VERIFY_ETHERSCAN env taskArgs s = (Inl (MissingTaskArgument ''address''), s)"
  by (simp add: TASK_VERIFY_ETHERSCAN_def throw_apply)

lemma TASK_VERIFY_ETHERSCAN_rejected:
  assumes "fst (RESOLVE_ARGUMENTS env taskArgs s0) = Inl e"
    and "arg_address taskArgs \<noteq> None"
  shows "TASK_VERIFY_ETHERSCAN env taskArgs (w, tr) =
           (Inl e, (w, tr @ [Run TASK_VERIFY_ETHERSCAN_RESOLVE_ARGUMENTS]))"
proof -
  let ?s = "(w, tr @ [Run TASK_VERIFY_ETHERSCAN_RESOLVE_ARGUMENTS])"
  have "fst (RESOLVE_ARGUMENTS env taskArgs ?s) = Inl e"
    using assms(1) RESOLVE_ARGUMENTS_result [of env taskArgs ?s s0] by simp
  then have "RESOLVE_ARGUMENTS env taskArgs ?s = (Inl e, ?s)"
    using RESOLVE_ARGUMENTS_state [of env taskArgs ?s] by (metis prod.collapse)
  then show ?thesis
    using assms(2) by (auto simp add: TASK_VERIFY_ETHERSCAN_def andThen_Inl run_apply)
qed

lemma TASK_VERIFY_ETHERSCAN_client:
  assumes "fst (RESOLVE_ARGUMENTS env taskArgs s0) = Inr args"
    and "getCurrentChainConfig env (networkName env) (customChains env) w = (Inr chainConfig, w1)"
    and "fromChainConfig env (apiKey env) chainConfig = Inr client"
  shows "TASK_VERIFY_ETHERSCAN env taskArgs (w, tr) =
    from_isVerified env args client
      (w1, tr @ [Run TASK_VERIFY_ETHERSCAN_RESOLVE_ARGUMENTS,
                 GetCurrentChainConfig (networkName env)])"
  using assms(2,3)
  by (simp add: TASK_VERIFY_ETHERSCAN_resolved [OF assms(1)] andThen_Inr request_Inr compute_Inr)

lemma TASK_VERIFY_ETHERSCAN_no_client:
  assumes "fst (RESOLVE_ARGUMENTS env taskArgs s0) = Inr args"
    and "getCurrentChainConfig env (networkName env) (customChains env) w = (r, w1)"
    and "\<forall>chainConfig client. r = Inr chainConfig
          \<longrightarrow> fromChainConfig env (apiKey env) chainConfig \<noteq> Inr client"
  shows "\<exists>x. TASK_VERIFY_ETHERSCAN env taskArgs (w, tr) =
    (Inl (Collaborator x), (w1, tr @ [Run TASK_VERIFY_ETHERSCAN_RESOLVE_ARGUMENTS,
                 GetCurrentChainConfig (networkName env)]))"
proof (cases r)
  case (Inl x)
  with assms(2) show ?thesis
    by (simp add: TASK_VERIFY_ETHERSCAN_resolved [OF assms(1)] andThen_Inl request_Inl)
next
  case (Inr chainConfig)
  with assms(3) obtain x where "fromChainConfig env (apiKey env) chainConfig = Inl x"
    by (cases "fromChainConfig env (apiKey env) chainConfig") auto
  with assms(2) Inr show ?thesis
    by (simp add: TASK_VERIFY_ETHERSCAN_resolved [OF assms(1)] andThen_Inl andThen_Inr
        request_Inr compute_Inl)
qed

lemma appends_from_isVerified: "appends (from_isVerified env args client)"
  unfolding from_isVerified_def
  by (intro appends_intros appends_from_matching_versions)

lemma appends_tail:
  "appends t \<Longrightarrow> \<exists>w' rest. snd (t (w, tr @ pre)) = (w', tr @ pre @ rest)"
  using appends_def [of t] by (metis append.assoc)

lemma from_isVerified_verified:
  assumes "isVerified client (va_address args) w = (Inr True, w')"
  shows "from_isVerified env args client (w, tr) =
    (Inr (), (w', tr @ [IsVerified (va_address args),
                        ConsoleLog (AlreadyVerified (va_address args)
                          (getContractUrl client (va_address args)))]))"
  using assms by (simp add: from_isVerified_def andThen_Inr request_Inr emit_apply)

lemma from_isVerified_trace:
  "\<exists>w' rest. snd (from_isVerified env args client (w, tr)) =
     (w', tr @ IsVerified (va_address args) # rest)"
proof -
  obtain r w1 where v: "isVerified client (va_address args) w = (r, w1)"
    by force
  show ?thesis
  proof (cases r)
    case (Inl x)
    with v show ?thesis
      by (simp add: from_isVerified_def andThen_Inl request_Inl)
  next
    case (Inr verified)
    let ?tail = "if verified
      then emit (ConsoleLog (AlreadyVerified (va_address args)
             (getContractUrl client (va_address args))))
      else
      andThen (compute (getCompilerVersions env)) (\<lambda>configCompilerVersions.
      andThen (request (GetDeployedContractBytecode (va_address args) (networkName env))
                 (getDeployedContractBytecode env (va_address args) (networkName env)))
        (\<lambda>deployedBytecode.
      from_matching_versions env args client configCompilerVersions deployedBytecode))"
    have run: "from_isVerified env args client (w, tr) =
        ?tail (w1, tr @ [IsVerified (va_address args)])"
      using v Inr by (simp add: from_isVerified_def andThen_Inr request_Inr)
    have "appends ?tail"
      by (intro appends_intros appends_from_matching_versions)
    then obtain w' rest where
      "snd (?tail (w1, tr @ [IsVerified (va_address args)])) =
         (w', tr @ [IsVerified (va_address args)] @ rest)"
      using appends_tail [of ?tail w1 tr "[IsVerified (va_address args)]"] by blast
    with run show ?thesis
      by auto
  qed
qed

lemma TASK_VERIFY_ETHERSCAN_trace:
  "\<exists>w' new. snd (TASK_VERIFY_ETHERSCAN env taskArgs (w, tr)) = (w', tr @ new) \<and>
     (arg_address taskArgs = None \<and> new = []
      \<or> new = [Run TASK_VERIFY_ETHERSCAN_RESOLVE_ARGUMENTS]
      \<or> new = [Run TASK_VERIFY_ETHERSCAN_RESOLVE_ARGUMENTS,
                GetCurrentChainConfig (networkName env)]
      \<or> (\<exists>a rest. new = [Run TASK_VERIFY_ETHERSCAN_RESOLVE_ARGUMENTS,
                            GetCurrentChainConfig (networkName env), IsVerified a] @ rest))"
proof (cases "fst (RESOLVE_ARGUMENTS env taskArgs (w, tr))")
  case (Inl e)
  then show ?thesis
    by (cases "arg_address taskArgs = None")
      (simp_all add: TASK_VERIFY_ETHERSCAN_rejected TASK_VERIFY_ETHERSCAN_refused)
next
  case (Inr args)
  obtain r w1 where c: "getCurrentChainConfig env (networkName env) (customChains env) w = (r, w1)"
    by force
  show ?thesis
  proof (cases "\<exists>chainConfig client. r = Inr chainConfig
      \<and> fromChainConfig env (apiKey env) chainConfig = Inr client")
    case False
    with TASK_VERIFY_ETHERSCAN_no_client [OF Inr c, of tr] show ?thesis
      by auto
  next
    case True
    then obtain chainConfig client where cc: "r = Inr chainConfig"
      and cl: "fromChainConfig env (apiKey env) chainConfig = Inr client"
      by blast
    let ?pre = "[Run TASK_VERIFY_ETHERSCAN_RESOLVE_ARGUMENTS,
                 GetCurrentChainConfig (networkName env)]"
    from from_isVerified_trace [of env args client w1 "tr @ ?pre"]
    obtain w' rest where "snd (from_isVerified env args client (w1, tr @ ?pre)) =
        (w', (tr @ ?pre) @ IsVerified (va_address args) # rest)"
      by blast
    with TASK_VERIFY_ETHERSCAN_client [OF Inr c [unfolded cc] cl, of tr] show ?thesis
      by auto
  qed
qed

subsection \<open>Where a mismatch of the compiler versions comes from\<close>

lemma no_mismatch_RESOLVE_ARGUMENTS:
  "throws_only (\<lambda>e. \<not> is_version_mismatch e) (RESOLVE_ARGUMENTS env taskArgs)"
  unfolding RESOLVE_ARGUMENTS_def
  by (intro throws_only_intros throws_only_throw throws_only_libraries_param) simp_all

lemma from_isVerified_mismatch:
  assumes e: "fst (from_isVerified env args client s) = Inl e" and m: "is_version_mismatch e"
  shows "\<exists>cfg db w1 w2 s2. getCompilerVersions env = Inr cfg
      \<and> getDeployedContractBytecode env (va_address args) (networkName env) w1 = (Inr db, w2)
      \<and> fst (from_matching_versions env args client cfg db s2) = Inl e"
proof -
  obtain w tr where s: "s = (w, tr)" by force
  obtain r w1 where v: "isVerified client (va_address args) w = (r, w1)" by force
  show ?thesis
  proof (cases r)
    case (Inl x)
    with e m s v show ?thesis
      by (auto simp add: from_isVerified_def andThen_Inl request_Inl)
  next
    case (Inr verified)
    show ?thesis
    proof (cases verified)
      case True
      with e s v Inr show ?thesis
        by (simp add: from_isVerified_def andThen_Inr request_Inr emit_apply)
    next
      case False
      show ?thesis
      proof (cases "getCompilerVersions env")
        case (Inl x)
        with e m s v Inr False show ?thesis
          by (auto simp add: from_isVerified_def andThen_Inr andThen_Inl request_Inr compute_Inl)
      next
        case cfg: (Inr cfg)
        obtain r2 w2 where d: "getDeployedContractBytecode env (va_address args) (networkName env)
            w1 = (r2, w2)" by force
        show ?thesis
        proof (cases r2)
          case (Inl x)
          with e m s v Inr False cfg d show ?thesis
            by (auto simp add: from_isVerified_def andThen_Inr andThen_Inl request_Inr
                request_Inl compute_Inr)
        next
          case db: (Inr db)
          with e s v Inr False cfg d
          have "fst (from_matching_versions env args client cfg db
              (w2, tr @ [IsVerified (va_address args),
                         GetDeployedContractBytecode (va_address args) (networkName env)])) = Inl e"
            by (simp add: from_isVerified_def andThen_Inr request_Inr compute_Inr)
          with cfg d db show ?thesis
            by blast
        qed
      qed
    qed
  qed
qed

lemma TASK_VERIFY_ETHERSCAN_mismatch:
  assumes e: "fst (TASK_VERIFY_ETHERSCAN env taskArgs (w, tr)) = Inl e"
    and m: "is_version_mismatch e"
  shows "\<exists>args client s1. fst (RESOLVE_ARGUMENTS env taskArgs (w, tr)) = Inr args
      \<and> fst (from_isVerified env args client s1) = Inl e"
proof (cases "fst (RESOLVE_ARGUMENTS env taskArgs (w, tr))")
  case (Inl e')
  with no_mismatch_RESOLVE_ARGUMENTS [of env taskArgs, unfolded throws_only_def, rule_format,
      of "(w, tr)" e']
  have "\<not> is_version_mismatch e'"
    by simp
  with e m TASK_VERIFY_ETHERSCAN_rejected [OF Inl, of w tr]
    TASK_VERIFY_ETHERSCAN_refused [of taskArgs env "(w, tr)"]
  show ?thesis
    by (cases "arg_address taskArgs = None") auto
next
  case (Inr args)
  obtain r w1 where c: "getCurrentChainConfig env (networkName env) (customChains env) w = (r, w1)"
    by force
  show ?thesis
  proof (cases "\<exists>chainConfig client. r = Inr chainConfig
      \<and> fromChainConfig env (apiKey env) chainConfig = Inr client")
    case False
    with TASK_VERIFY_ETHERSCAN_no_client [OF Inr c, of tr] e m show ?thesis
      by auto
  next
    case True
    then obtain chainConfig client where cc: "r = Inr chainConfig"
      and cl: "fromChainConfig env (apiKey env) chainConfig = Inr client"
      by blast
    from TASK_VERIFY_ETHERSCAN_client [OF Inr c [unfolded cc] cl, of tr] e Inr
    show ?thesis
      by auto
  qed
qed

lemmas demo_defs = demo_address_def demo_env_def demo_client_def demo_status_def demo_chain_def demo_args_def
  demo_bytecode_def demo_build_info_def demo_graph_def demo_contract_def demo_information_def
  demo_input_of_def demo_token_file_def demo_other_file_def demo_minimal_input_def
  demo_full_input_def demo_task_args_def

lemmas workflow_defs = TASK_VERIFY_ETHERSCAN_def from_isVerified_def from_matching_versions_def
  from_contract_information_def from_submission_def ATTEMPT_VERIFICATION_def
  GET_MINIMAL_INPUT_def GET_CONTRACT_INFORMATION_def RESOLVE_ARGUMENTS_def
  constructorArgs_accepted_def
  extractMatchingContractInformation_def

subsection \<open>The loop over the verification subtasks\<close>

lemma run_verification_subtasks_loop:
  "dispatched (run_verification_subtasks env taskArgs ts st) = dispatched st @ ts
   \<and> hasErrors (run_verification_subtasks env taskArgs ts st) =
       (hasErrors st \<or> list_ex isl (subtask_results env taskArgs ts (world st)))
   \<and> map_of (errors (run_verification_subtasks env taskArgs ts st)) =
       map_of (rev (thrown_errors ts (subtask_results env taskArgs ts (world st))) @ errors st)"
proof (induction ts arbitrary: st)
  case Nil
  then show ?case by simp
next
  case (Cons t ts)
  obtain r w' where r: "runSubtask env t taskArgs (world st) = (r, w')"
    by force
  show ?case
  proof (cases r)
    case (Inl e)
    let ?st = "st\<lparr>hasErrors := True, errors := AList.update t e (errors st),
                 world := w', dispatched := dispatched st @ [t]\<rparr>"
    from r Inl have step: "run_verification_subtasks env taskArgs (t # ts) st =
        run_verification_subtasks env taskArgs ts ?st"
      by simp
    have "map_of (rev (thrown_errors ts (subtask_results env taskArgs ts w')) @ errors ?st) =
        map_of (rev ((t, e) # thrown_errors ts (subtask_results env taskArgs ts w')) @ errors st)"
      by (simp add: update_conv')
    with Cons.IH [of ?st] r Inl show ?thesis
      by (simp only: step) simp
  next
    case (Inr u)
    let ?st = "st\<lparr>world := w', dispatched := dispatched st @ [t]\<rparr>"
    from r Inr have step: "run_verification_subtasks env taskArgs (t # ts) st =
        run_verification_subtasks env taskArgs ts ?st"
      by simp
    with Cons.IH [of ?st] r Inr show ?thesis
      by (simp only: step) simp
  qed
qed

section \<open>The claims\<close>

text \<open>
  Claim C1. From the first submission on (lines 176 to 218), with \<open>r1\<close> the outcome of
  the attempt on the minimal input and \<open>r2\<close> the outcome of the attempt on the full
  input in the state that follows the first one: an error thrown by the first attempt,
  or its success, ends the task in the state reached by the first attempt; only when the
  first attempt reports a failure is the second one made, and then its error, its
  success, or \<open>ContractVerificationFailedError\<close> with its message and the undetectable
  libraries ends the task in the state reached by the second attempt. The inputs
  submitted are the minimal one, followed by the full one exactly when the first attempt
  reported a failure.
\<close>

theorem fallback_policy:
  assumes first: "run TASK_VERIFY_ETHERSCAN_ATTEMPT_VERIFICATION
                    (ATTEMPT_VERIFICATION address minimalInput ci vi enc) (w, tr) = (r1, s1)"
    and second: "run TASK_VERIFY_ETHERSCAN_ATTEMPT_VERIFICATION
                   (ATTEMPT_VERIFICATION address (compilerInput ci) ci vi enc)
                   (fst s1, snd s1 @ [ConsoleLog (MinimalInputFailed (contractName ci))])
                 = (r2, s2)"
  shows "from_submission address vi ci minimalInput enc (w, tr) =
      (case r1 of
         Inl e \<Rightarrow> (Inl e, s1)
       | Inr v1 \<Rightarrow>
           if success v1 then (Inr (), s1)
           else (case r2 of
                   Inl e \<Rightarrow> (Inl e, s2)
                 | Inr v2 \<Rightarrow>
                     if success v2 then (Inr (), s2)
                     else (Inl (ContractVerificationFailedError (message v2)
                                  (undetectableLibraries ci)), s2)))
    \<and> submissions (snd (snd (from_submission address vi ci minimalInput enc (w, tr)))) =
        submissions tr @
        (if (\<exists>v1. r1 = Inr v1 \<and> \<not> success v1)
         then [minimalInput\<lparr>settings_libraries := Some (libraries ci)\<rparr>,
               (compilerInput ci)\<lparr>settings_libraries := Some (libraries ci)\<rparr>]
         else [minimalInput\<lparr>settings_libraries := Some (libraries ci)\<rparr>])"
proof -
  let ?out = "(case r1 of
         Inl e \<Rightarrow> (Inl e, s1)
       | Inr v1 \<Rightarrow>
           if success v1 then (Inr (), s1)
           else (case r2 of
                   Inl e \<Rightarrow> (Inl e, s2)
                 | Inr v2 \<Rightarrow>
                     if success v2 then (Inr (), s2)
                     else (Inl (ContractVerificationFailedError (message v2)
                                  (undetectableLibraries ci)), s2)))"
  have result: "from_submission address vi ci minimalInput enc (w, tr) = ?out"
  proof (cases r1)
    case (Inl e)
    with first show ?thesis
      by (simp add: from_submission_def andThen_Inl)
  next
    case r1: (Inr v1)
    show ?thesis
    proof (cases "success v1")
      case True
      with first r1 show ?thesis
        by (simp add: from_submission_def andThen_Inr ret_apply)
    next
      case False
      obtain w1 tr1 where s1: "s1 = (w1, tr1)" by force
      show ?thesis
      proof (cases r2)
        case (Inl e)
        with first second r1 False s1 show ?thesis
          by (simp add: from_submission_def andThen_Inr andThen_emit andThen_Inl)
      next
        case (Inr v2)
        with first second r1 False s1 show ?thesis
          by (simp add: from_submission_def andThen_Inr andThen_emit ret_apply throw_apply)
      qed
    qed
  qed
  obtain w1 tr1 where s1: "s1 = (w1, tr1)" by force
  obtain w2 tr2 where s2: "s2 = (w2, tr2)" by force
  from first obtain new1 where tr1: "tr1 = (tr @ [Run TASK_VERIFY_ETHERSCAN_ATTEMPT_VERIFICATION]) @ new1"
    and sub1: "submissions new1 = [minimalInput\<lparr>settings_libraries := Some (libraries ci)\<rparr>]"
    using ATTEMPT_trace [of address minimalInput ci vi enc w
        "tr @ [Run TASK_VERIFY_ETHERSCAN_ATTEMPT_VERIFICATION]"]
    by (auto simp add: run_apply s1)
  from second obtain new2 where
    tr2: "tr2 = (tr1 @ [ConsoleLog (MinimalInputFailed (contractName ci)),
                  Run TASK_VERIFY_ETHERSCAN_ATTEMPT_VERIFICATION]) @ new2"
    and sub2: "submissions new2 = [(compilerInput ci)\<lparr>settings_libraries := Some (libraries ci)\<rparr>]"
    using ATTEMPT_trace [of address "compilerInput ci" ci vi enc w1
        "tr1 @ [ConsoleLog (MinimalInputFailed (contractName ci)),
                Run TASK_VERIFY_ETHERSCAN_ATTEMPT_VERIFICATION]"]
    by (auto simp add: run_apply s1 s2)
  have "submissions (snd (snd ?out)) = submissions tr @
        (if (\<exists>v1. r1 = Inr v1 \<and> \<not> success v1)
         then [minimalInput\<lparr>settings_libraries := Some (libraries ci)\<rparr>,
               (compilerInput ci)\<lparr>settings_libraries := Some (libraries ci)\<rparr>]
         else [minimalInput\<lparr>settings_libraries := Some (libraries ci)\<rparr>])"
    by (simp add: s1 s2 tr1 tr2 sub1 sub2 submissions_append split: sum.splits)
  with result show ?thesis by simp
qed

theorem fallback_policy_witness:
  "run TASK_VERIFY_ETHERSCAN_ATTEMPT_VERIFICATION
     (ATTEMPT_VERIFICATION demo_address demo_minimal_input demo_information
        (demo_client False [''Fail - Unable to verify'', ''Fail - Unable to verify''] demo_chain)
        ''00'') (0, []) =
     (Inr \<lparr>success = False, message = ''Fail - Unable to verify''\<rparr>,
      (1, [Run TASK_VERIFY_ETHERSCAN_ATTEMPT_VERIFICATION,
           submission demo_address demo_minimal_input demo_information ''00'',
           submitted demo_address demo_information, Sleep 700, GetVerificationStatus ''guid'']))
   \<and> from_submission demo_address
        (demo_client False [''Fail - Unable to verify'', ''Fail - Unable to verify''] demo_chain)
        demo_information demo_minimal_input ''00'' (0, []) =
       (Inl (ContractVerificationFailedError ''Fail - Unable to verify'' [''contracts/Lib.sol:Lib'']),
        (2, [Run TASK_VERIFY_ETHERSCAN_ATTEMPT_VERIFICATION,
             submission demo_address demo_minimal_input demo_information ''00'',
             submitted demo_address demo_information, Sleep 700, GetVerificationStatus ''guid'',
             ConsoleLog (MinimalInputFailed ''Token''),
             Run TASK_VERIFY_ETHERSCAN_ATTEMPT_VERIFICATION,
             submission demo_address demo_full_input demo_information ''00'',
             submitted demo_address demo_information, Sleep 700, GetVerificationStatus ''guid'']))
   \<and> submissions (snd (snd (from_submission demo_address
        (demo_client False [''Fail - Unable to verify'', ''Fail - Unable to verify''] demo_chain)
        demo_information demo_minimal_input ''00'' (0, [])))) =
       [demo_minimal_input\<lparr>settings_libraries := Some []\<rparr>,
        demo_full_input\<lparr>settings_libraries := Some []\<rparr>]"
proof -
  let ?client = "demo_client False [''Fail - Unable to verify'', ''Fail - Unable to verify''] demo_chain"
  let ?tr1 = "[Run TASK_VERIFY_ETHERSCAN_ATTEMPT_VERIFICATION,
           submission demo_address demo_minimal_input demo_information ''00'',
           submitted demo_address demo_information, Sleep 700, GetVerificationStatus ''guid'']"
  have h1: "run TASK_VERIFY_ETHERSCAN_ATTEMPT_VERIFICATION
     (ATTEMPT_VERIFICATION demo_address demo_minimal_input demo_information ?client ''00'') (0, []) =
     (Inr \<lparr>success = False, message = ''Fail - Unable to verify''\<rparr>, (1, ?tr1))"
    by (simp add: ATTEMPT_VERIFICATION_def task_defs demo_client_def demo_status_def
        submission_def submitted_def Let_def)
  have h2: "run TASK_VERIFY_ETHERSCAN_ATTEMPT_VERIFICATION
     (ATTEMPT_VERIFICATION demo_address (compilerInput demo_information) demo_information ?client ''00'')
       (fst (1::nat, ?tr1), snd (1::nat, ?tr1) @ [ConsoleLog (MinimalInputFailed (contractName demo_information))]) =
     (Inr \<lparr>success = False, message = ''Fail - Unable to verify''\<rparr>,
      (2, ?tr1 @ [ConsoleLog (MinimalInputFailed (contractName demo_information)),
             Run TASK_VERIFY_ETHERSCAN_ATTEMPT_VERIFICATION,
             submission demo_address (compilerInput demo_information) demo_information ''00'',
             submitted demo_address demo_information, Sleep 700, GetVerificationStatus ''guid'']))"
    by (simp add: ATTEMPT_VERIFICATION_def task_defs demo_client_def demo_status_def
        submission_def submitted_def Let_def)
  have d: "compilerInput demo_information = demo_full_input"
    "contractName demo_information = ''Token''"
    "undetectableLibraries demo_information = [''contracts/Lib.sol:Lib'']"
    "libraries demo_information = []"
    by (simp_all add: demo_information_def demo_contract_def contract_information.extend_def
        extended_contract_information.fields_def)
  note c = fallback_policy [OF h1 h2]
  show ?thesis
    using h1 c by (simp add: d submission_def submitted_def)
qed

text \<open>
  Claim C2, as the code has it. The task that computes the minimal input can fail: it
  throws \<open>UnexpectedNumberOfFilesError\<close> when the dependency graph of the target does not
  hold exactly one resolved file with the source name of the target, and a rejection of
  one of the three compile subtasks is thrown on. It returns an input exactly when the
  dependency graph is built, holds exactly one such file, and the compilation job of that
  file and the compiler input of that job are obtained; the input returned is that one.
  In the main task a failure of the minimal input ends the run right after the dispatch
  of the subtask: nothing is submitted, and the full input is not tried. (The fall back
  to the full input is taken when an attempt on the minimal input reports a failure,
  which is claim C1.)
\<close>

theorem minimal_input_reducer:
  "(getDependencyGraph env [target] = Inr g
      \<and> filter (\<lambda>f. rf_sourceName f = target) (getResolvedFiles g) = [resolvedFile]
      \<and> getCompilationJobForFile env g resolvedFile = Inr job
      \<and> getCompilerInput env job = Inr input \<longrightarrow>
     GET_MINIMAL_INPUT env target s = (Inr input, s))
   \<and> (getDependencyGraph env [target] = Inr g
      \<and> length (filter (\<lambda>f. rf_sourceName f = target) (getResolvedFiles g)) \<noteq> 1 \<longrightarrow>
     GET_MINIMAL_INPUT env target s = (Inl UnexpectedNumberOfFilesError, s))
   \<and> (\<forall>result. fst (GET_MINIMAL_INPUT env target s) = Inr result \<longrightarrow>
       (\<exists>g' resolvedFile' job'. getDependencyGraph env [target] = Inr g'
          \<and> filter (\<lambda>f. rf_sourceName f = target) (getResolvedFiles g') = [resolvedFile']
          \<and> getCompilationJobForFile env g' resolvedFile' = Inr job'
          \<and> getCompilerInput env job' = Inr result))
   \<and> (\<forall>e ci w1 tr1.
        run TASK_VERIFY_ETHERSCAN_GET_CONTRACT_INFORMATION
          (GET_CONTRACT_INFORMATION env (va_contractFQN args) db matching (va_libraries args)) s
          = (Inr ci, (w1, tr1))
        \<and> fst (GET_MINIMAL_INPUT env (sourceName ci) s) = Inl e \<longrightarrow>
        from_contract_information env args ec db matching s =
          (Inl e, (w1, tr1 @ [Run TASK_VERIFY_ETHERSCAN_GET_MINIMAL_INPUT])))"
proof -
  have state: "snd (GET_MINIMAL_INPUT env t s') = s'" for t s'
    by (auto simp add: GET_MINIMAL_INPUT_def Let_def andThen_def compute_def ret_def throw_def
        split: sum.splits)
  have result: "fst (GET_MINIMAL_INPUT env t s') = fst (GET_MINIMAL_INPUT env t s'')" for t s' s''
    by (auto simp add: GET_MINIMAL_INPUT_def Let_def andThen_def compute_def ret_def throw_def
        split: sum.splits)
  have 1: "GET_MINIMAL_INPUT env target s = (Inr input, s)"
    if "getDependencyGraph env [target] = Inr g"
      "filter (\<lambda>f. rf_sourceName f = target) (getResolvedFiles g) = [resolvedFile]"
      "getCompilationJobForFile env g resolvedFile = Inr job" "getCompilerInput env job = Inr input"
    using that
    by (simp add: GET_MINIMAL_INPUT_def Let_def andThen_def compute_def ret_def)
  have 2: "GET_MINIMAL_INPUT env target s = (Inl UnexpectedNumberOfFilesError, s)"
    if "getDependencyGraph env [target] = Inr g"
      "length (filter (\<lambda>f. rf_sourceName f = target) (getResolvedFiles g)) \<noteq> 1"
    using that
    by (simp add: GET_MINIMAL_INPUT_def Let_def andThen_def compute_def ret_def throw_def)
  have 3: "\<exists>g' resolvedFile' job'. getDependencyGraph env [target] = Inr g'
          \<and> filter (\<lambda>f. rf_sourceName f = target) (getResolvedFiles g') = [resolvedFile']
          \<and> getCompilationJobForFile env g' resolvedFile' = Inr job'
          \<and> getCompilerInput env job' = Inr result"
    if "fst (GET_MINIMAL_INPUT env target s) = Inr result" for result
    using that
    by (auto simp add: GET_MINIMAL_INPUT_def Let_def andThen_def compute_def ret_def throw_def
        length_Suc_conv split: sum.splits if_splits)
  have 4: "from_contract_information env args ec db matching s =
          (Inl e, (w1, tr1 @ [Run TASK_VERIFY_ETHERSCAN_GET_MINIMAL_INPUT]))"
    if a: "run TASK_VERIFY_ETHERSCAN_GET_CONTRACT_INFORMATION
          (GET_CONTRACT_INFORMATION env (va_contractFQN args) db matching (va_libraries args)) s
          = (Inr ci, (w1, tr1))"
      and b: "fst (GET_MINIMAL_INPUT env (sourceName ci) s) = Inl e" for e ci w1 tr1
  proof -
    let ?s2 = "(w1, tr1 @ [Run TASK_VERIFY_ETHERSCAN_GET_MINIMAL_INPUT])"
    have "GET_MINIMAL_INPUT env (sourceName ci) ?s2 = (Inl e, ?s2)"
      using b state [of "sourceName ci" ?s2] result [of "sourceName ci" ?s2 s]
      by (metis prod.collapse)
    then have "run TASK_VERIFY_ETHERSCAN_GET_MINIMAL_INPUT
        (GET_MINIMAL_INPUT env (sourceName ci)) (w1, tr1) = (Inl e, ?s2)"
      by (simp add: run_apply)
    with a show ?thesis
      by (simp add: from_contract_information_def andThen_Inr andThen_Inl)
  qed
  from 1 2 3 4 show ?thesis
    by blast
qed

theorem minimal_input_reducer_witness:
  "GET_MINIMAL_INPUT (demo_env False []) ''contracts/Token.sol'' (0, []) =
     (Inr demo_minimal_input, (0, []))
   \<and> GET_MINIMAL_INPUT
        ((demo_env False [])\<lparr>getDependencyGraph :=
            \<lambda>names. Inr \<lparr>getResolvedFiles = [demo_token_file, demo_token_file],
                           imports_of = []\<rparr>\<rparr>)
        ''contracts/Token.sol'' (0, []) = (Inl UnexpectedNumberOfFilesError, (0, []))"
proof -
  let ?env = "demo_env False []"
  let ?twice = "\<lparr>getResolvedFiles = [demo_token_file, demo_token_file], imports_of = []\<rparr>"
  let ?env2 = "?env\<lparr>getDependencyGraph := \<lambda>names. Inr ?twice\<rparr>"
  have a: "getDependencyGraph ?env [''contracts/Token.sol''] = Inr demo_graph
      \<and> filter (\<lambda>f. rf_sourceName f = ''contracts/Token.sol'') (getResolvedFiles demo_graph)
          = [demo_token_file]
      \<and> getCompilationJobForFile ?env demo_graph demo_token_file
          = Inr \<lparr>job_files = [demo_token_file], job_solc = ''0.8.19''\<rparr>
      \<and> getCompilerInput ?env \<lparr>job_files = [demo_token_file], job_solc = ''0.8.19''\<rparr>
          = Inr demo_minimal_input"
    by (simp add: demo_env_def demo_graph_def demo_token_file_def demo_minimal_input_def)
  have b: "getDependencyGraph ?env2 [''contracts/Token.sol''] = Inr ?twice
      \<and> length (filter (\<lambda>f. rf_sourceName f = ''contracts/Token.sol'') (getResolvedFiles ?twice))
          \<noteq> 1"
    by (simp add: demo_env_def demo_token_file_def)
  have 1: "GET_MINIMAL_INPUT ?env ''contracts/Token.sol'' (0, []) =
     (Inr demo_minimal_input, (0, []))"
    using a minimal_input_reducer [where env = ?env and target = "''contracts/Token.sol''"
        and g = demo_graph and resolvedFile = demo_token_file
        and job = "\<lparr>job_files = [demo_token_file], job_solc = ''0.8.19''\<rparr>"
        and input = demo_minimal_input and s = "(0, [])"]
    by blast
  have 2: "GET_MINIMAL_INPUT ?env2 ''contracts/Token.sol'' (0, []) =
      (Inl UnexpectedNumberOfFilesError, (0, []))"
    using b minimal_input_reducer [where env = ?env2 and target = "''contracts/Token.sol''"
        and g = ?twice and s = "(0, [])"]
    by blast
  from 1 2 show ?thesis
    by blast
qed

text \<open>
  Claim C2 as the specification states it (the reducer never reports failure) fails on
  a dependency graph that does not hold the target: the reducer throws, and the main
  task, from the contract information on, ends with that error before any submission.
\<close>

theorem minimal_input_may_fail:
  "GET_MINIMAL_INPUT
      ((demo_env False [])\<lparr>getDependencyGraph :=
          \<lambda>names. Inr \<lparr>getResolvedFiles = [demo_other_file], imports_of = []\<rparr>\<rparr>)
      ''contracts/Token.sol'' (0, []) = (Inl UnexpectedNumberOfFilesError, (0, []))
   \<and> from_contract_information
      ((demo_env False [])\<lparr>getDependencyGraph :=
          \<lambda>names. Inr \<lparr>getResolvedFiles = [demo_other_file], imports_of = []\<rparr>\<rparr>)
      demo_args (demo_client False [] demo_chain) demo_bytecode [''0.8.19''] (0, []) =
     (Inl UnexpectedNumberOfFilesError,
      (0, [Run TASK_VERIFY_ETHERSCAN_GET_CONTRACT_INFORMATION,
           Run TASK_VERIFY_ETHERSCAN_GET_MINIMAL_INPUT]))"
  by (simp add: workflow_defs task_defs demo_defs Let_def
      contract_information.extend_def extended_contract_information.fields_def)

text \<open>
  Claim C3. From the matching of the compiler versions on (lines 140 to 218), the task
  throws \<open>CompilerVersionsMismatchError\<close> exactly when \<^verbatim>\<open>getMatchingVersions\<close> returns the
  empty list and the bytecode is not flagged as OVM; the error carries the configured
  versions, the version of the bytecode and the name of the network, and nothing is done
  after it. When the list is empty and the bytecode is flagged as OVM, the task goes on
  with the contract information on the empty list. The whole task throws this error only
  there: when it does, the arguments were resolved, and the configured versions and a
  bytecode fetched from the chain have no matching version, the bytecode not being
  flagged as OVM.
\<close>

theorem version_mismatch_exactly_when_no_match:
  "((\<exists>e. fst (from_matching_versions env args ec cfg db s) = Inl e \<and> is_version_mismatch e)
      \<longleftrightarrow> getMatchingVersions db cfg = Inr [] \<and> \<not> isOvm db)
   \<and> (getMatchingVersions db cfg = Inr [] \<and> \<not> isOvm db \<longrightarrow>
        from_matching_versions env args ec cfg db s =
          (Inl (CompilerVersionsMismatchError cfg (getVersion db) (networkName env)), s))
   \<and> (getMatchingVersions db cfg = Inr [] \<and> isOvm db \<longrightarrow>
        from_matching_versions env args ec cfg db s =
          from_contract_information env args ec db [] s)
   \<and> ((\<exists>e. fst (TASK_VERIFY_ETHERSCAN env taskArgs (w, tr)) = Inl e \<and> is_version_mismatch e)
        \<longrightarrow> (\<exists>args' cfg' db' w1 w2.
              fst (RESOLVE_ARGUMENTS env taskArgs (w, tr)) = Inr args'
              \<and> getCompilerVersions env = Inr cfg'
              \<and> getDeployedContractBytecode env (va_address args') (networkName env) w1
                  = (Inr db', w2)
              \<and> getMatchingVersions db' cfg' = Inr [] \<and> \<not> isOvm db'))"
proof -
  have thrown: "from_matching_versions env args ec cfg db s =
          (Inl (CompilerVersionsMismatchError cfg (getVersion db) (networkName env)), s)"
    if "getMatchingVersions db cfg = Inr []" and "\<not> isOvm db"
    using that by (simp add: from_matching_versions_def andThen_def compute_def ret_def throw_def)
  have goes_on: "from_matching_versions env args ec cfg db s =
          from_contract_information env args ec db [] s"
    if "getMatchingVersions db cfg = Inr []" and "isOvm db"
    using that by (simp add: from_matching_versions_def andThen_def compute_def ret_def)
  have only: "getMatchingVersions db cfg = Inr [] \<and> \<not> isOvm db"
    if e: "fst (from_matching_versions env args ec cfg db s) = Inl e" and m: "is_version_mismatch e"
    for e args ec cfg db s
  proof (cases "getMatchingVersions db cfg")
    case (Inl x)
    with e m show ?thesis
      by (auto simp add: from_matching_versions_def andThen_def compute_def throw_def)
  next
    case (Inr matching)
    show ?thesis
    proof (cases "matching = [] \<and> \<not> isOvm db")
      case True
      with Inr show ?thesis by simp
    next
      case False
      with Inr have "from_matching_versions env args ec cfg db s =
          from_contract_information env args ec db matching s"
        by (auto simp add: from_matching_versions_def andThen_def compute_def ret_def)
      with e have "fst (from_contract_information env args ec db matching s) = Inl e" by simp
      with no_mismatch_from_contract_information [of env args ec db matching,
          unfolded throws_only_def, rule_format, of s e] m
      show ?thesis by simp
    qed
  qed
  have whole: "\<exists>args' cfg' db' w1 w2.
              fst (RESOLVE_ARGUMENTS env taskArgs (w, tr)) = Inr args'
              \<and> getCompilerVersions env = Inr cfg'
              \<and> getDeployedContractBytecode env (va_address args') (networkName env) w1
                  = (Inr db', w2)
              \<and> getMatchingVersions db' cfg' = Inr [] \<and> \<not> isOvm db'"
    if e: "fst (TASK_VERIFY_ETHERSCAN env taskArgs (w, tr)) = Inl e" and m: "is_version_mismatch e"
    for e
  proof -
    from TASK_VERIFY_ETHERSCAN_mismatch [OF e m] obtain args' client s1
      where r: "fst (RESOLVE_ARGUMENTS env taskArgs (w, tr)) = Inr args'"
        and v: "fst (from_isVerified env args' client s1) = Inl e"
      by blast
    from from_isVerified_mismatch [OF v m] obtain cfg' db' w1 w2 s2
      where c: "getCompilerVersions env = Inr cfg'"
        and d: "getDeployedContractBytecode env (va_address args') (networkName env) w1
                  = (Inr db', w2)"
        and f: "fst (from_matching_versions env args' client cfg' db' s2) = Inl e"
      by blast
    from only [OF f m] r c d show ?thesis
      by blast
  qed
  have segment: "(\<exists>e. fst (from_matching_versions env args ec cfg db s) = Inl e
      \<and> is_version_mismatch e) \<longleftrightarrow> getMatchingVersions db cfg = Inr [] \<and> \<not> isOvm db"
    using thrown only by (metis fst_conv is_version_mismatch.simps(1))
  from segment thrown goes_on whole show ?thesis
    by blast
qed

theorem version_mismatch_exactly_when_no_match_witness:
  "getMatchingVersions demo_bytecode [''0.7.6''] = Inr []
   \<and> \<not> isOvm demo_bytecode
   \<and> from_matching_versions (demo_env False []) demo_args (demo_client False [] demo_chain)
        [''0.7.6''] demo_bytecode (0, []) =
       (Inl (CompilerVersionsMismatchError [''0.7.6''] ''0.8.19'' ''sepolia''), (0, []))
   \<and> getMatchingVersions (demo_bytecode\<lparr>isOvm := True\<rparr>) [''0.7.6''] = Inr []
   \<and> isOvm (demo_bytecode\<lparr>isOvm := True\<rparr>)
   \<and> from_matching_versions (demo_env False [''Pass - Verified'']) demo_args
        (demo_client False [''Pass - Verified''] demo_chain)
        [''0.7.6''] (demo_bytecode\<lparr>isOvm := True\<rparr>) (0, []) =
       (Inr (), (1, [Run TASK_VERIFY_ETHERSCAN_GET_CONTRACT_INFORMATION,
                     Run TASK_VERIFY_ETHERSCAN_GET_MINIMAL_INPUT,
                     Run TASK_VERIFY_ETHERSCAN_ATTEMPT_VERIFICATION,
                     submission demo_address demo_minimal_input demo_information [],
                     submitted demo_address demo_information, Sleep 700,
                     GetVerificationStatus ''guid'',
                     ConsoleLog (SuccessfullyVerified ''Token''
                       ''https://sepolia.etherscan.io/address/0x5FbDB2315678afecb367f032d93F642f64180aa3#code'')]))"
proof -
  have a: "getMatchingVersions demo_bytecode [''0.7.6''] = Inr [] \<and> \<not> isOvm demo_bytecode"
    by (simp add: demo_bytecode_def)
  have b: "getMatchingVersions (demo_bytecode\<lparr>isOvm := True\<rparr>) [''0.7.6''] = Inr []
      \<and> isOvm (demo_bytecode\<lparr>isOvm := True\<rparr>)"
    by (simp add: demo_bytecode_def)
  have v: "getVersion demo_bytecode = ''0.8.19''" "networkName (demo_env False []) = ''sepolia''"
    by (simp_all add: demo_env_def demo_bytecode_def)
  have 1: "from_matching_versions (demo_env False []) demo_args (demo_client False [] demo_chain)
        [''0.7.6''] demo_bytecode (0, []) =
       (Inl (CompilerVersionsMismatchError [''0.7.6''] ''0.8.19'' ''sepolia''), (0, []))"
    using a version_mismatch_exactly_when_no_match [where env = "demo_env False []"
        and args = demo_args and ec = "demo_client False [] demo_chain" and cfg = "[''0.7.6'']"
        and db = demo_bytecode and s = "(0, [])"]
    by (simp add: v)
  have run: "from_contract_information (demo_env False [''Pass - Verified'']) demo_args
        (demo_client False [''Pass - Verified''] demo_chain)
        (demo_bytecode\<lparr>isOvm := True\<rparr>) [] (0, []) =
       (Inr (), (1, [Run TASK_VERIFY_ETHERSCAN_GET_CONTRACT_INFORMATION,
                     Run TASK_VERIFY_ETHERSCAN_GET_MINIMAL_INPUT,
                     Run TASK_VERIFY_ETHERSCAN_ATTEMPT_VERIFICATION,
                     submission demo_address demo_minimal_input demo_information [],
                     submitted demo_address demo_information, Sleep 700,
                     GetVerificationStatus ''guid'',
                     ConsoleLog (SuccessfullyVerified ''Token''
                       ''https://sepolia.etherscan.io/address/0x5FbDB2315678afecb367f032d93F642f64180aa3#code'')]))"
    by (simp add: workflow_defs task_defs demo_defs demo_address_def submission_def submitted_def
        Let_def contract_information.extend_def extended_contract_information.fields_def)
  have 2: "from_matching_versions (demo_env False [''Pass - Verified'']) demo_args
        (demo_client False [''Pass - Verified''] demo_chain)
        [''0.7.6''] (demo_bytecode\<lparr>isOvm := True\<rparr>) (0, []) =
       from_contract_information (demo_env False [''Pass - Verified'']) demo_args
        (demo_client False [''Pass - Verified''] demo_chain)
        (demo_bytecode\<lparr>isOvm := True\<rparr>) [] (0, [])"
    using b version_mismatch_exactly_when_no_match
        [where env = "demo_env False [''Pass - Verified'']"
        and args = demo_args and ec = "demo_client False [''Pass - Verified''] demo_chain"
        and cfg = "[''0.7.6'']" and db = "demo_bytecode\<lparr>isOvm := True\<rparr>" and s = "(0, [])"]
    by blast
  from a b 1 2 run show ?thesis
    by simp
qed

text \<open>
  Claim C4. In named mode the checks are made in this order: the task fails with
  \<open>ContractNotFoundError\<close> when there is no artifact for the name, whatever the rest; with
  \<open>BuildInfoNotFoundError\<close> when the artifact exists and its build information is
  missing; with \<open>BuildInfoCompilerVersionMismatchError\<close> when the build information is
  there, its compiler version is not among the matching versions and the bytecode is not
  flagged as OVM; with \<open>DeployedBytecodeMismatchError\<close> when the version check passes and
  the normalized compiled bytecode of the named contract differs from the normalized
  deployed bytecode.
\<close>

theorem named_mode_checks_in_order:
  "(artifactExists env fqn = Inr False \<longrightarrow>
      GET_CONTRACT_INFORMATION env (Some fqn) deployedBytecode matching libs s =
        (Inl (ContractNotFoundError fqn), s))
   \<and> (artifactExists env fqn = Inr True \<and> getBuildInfo env fqn = Inr None \<longrightarrow>
      GET_CONTRACT_INFORMATION env (Some fqn) deployedBytecode matching libs s =
        (Inl (BuildInfoNotFoundError fqn), s))
   \<and> (artifactExists env fqn = Inr True \<and> getBuildInfo env fqn = Inr (Some bi)
       \<and> solcVersion bi \<notin> set matching \<and> \<not> isOvm deployedBytecode \<longrightarrow>
      GET_CONTRACT_INFORMATION env (Some fqn) deployedBytecode matching libs s =
        (Inl (BuildInfoCompilerVersionMismatchError fqn (getVersion deployedBytecode)
               (hasVersionRange deployedBytecode) (solcVersion bi) (networkName env)), s))
   \<and> (artifactExists env fqn = Inr True \<and> getBuildInfo env fqn = Inr (Some bi)
       \<and> (solcVersion bi \<in> set matching \<or> isOvm deployedBytecode)
       \<and> normalize env (compiledBytecode bi fqn)
           \<noteq> normalize env (bytecode_hex deployedBytecode) \<longrightarrow>
      GET_CONTRACT_INFORMATION env (Some fqn) deployedBytecode matching libs s =
        (Inl (DeployedBytecodeMismatchError (networkName env) fqn), s))"
  by (auto simp add: GET_CONTRACT_INFORMATION_def extractMatchingContractInformation_def
      andThen_def compute_def ret_def throw_def)

theorem named_mode_checks_in_order_witness:
  "GET_CONTRACT_INFORMATION (demo_env False []) (Some ''contracts/Gone.sol:Gone'') demo_bytecode
      [''0.8.19''] [] (0, []) =
     (Inl (ContractNotFoundError ''contracts/Gone.sol:Gone''), (0, []))
   \<and> GET_CONTRACT_INFORMATION ((demo_env False [])\<lparr>getBuildInfo := \<lambda>fqn. Inr None\<rparr>)
       (Some ''contracts/Token.sol:Token'') demo_bytecode [''0.8.19''] [] (0, []) =
     (Inl (BuildInfoNotFoundError ''contracts/Token.sol:Token''), (0, []))
   \<and> GET_CONTRACT_INFORMATION (demo_env False []) (Some ''contracts/Token.sol:Token'')
       demo_bytecode [''0.8.20''] [] (0, []) =
     (Inl (BuildInfoCompilerVersionMismatchError ''contracts/Token.sol:Token'' ''0.8.19'' False
            ''0.8.19'' ''sepolia''), (0, []))
   \<and> GET_CONTRACT_INFORMATION (demo_env False []) (Some ''contracts/Token.sol:Token'')
       (demo_bytecode\<lparr>bytecode_hex := ''6001''\<rparr>) [''0.8.19''] [] (0, []) =
     (Inl (DeployedBytecodeMismatchError ''sepolia'' ''contracts/Token.sol:Token''), (0, []))"
proof -
  let ?env = "demo_env False []"
  let ?token = "''contracts/Token.sol:Token''"
  have a: "artifactExists ?env ''contracts/Gone.sol:Gone'' = Inr False"
    by (simp add: demo_env_def)
  have b: "artifactExists (?env\<lparr>getBuildInfo := \<lambda>fqn. Inr None\<rparr>) ?token = Inr True
      \<and> getBuildInfo (?env\<lparr>getBuildInfo := \<lambda>fqn. Inr None\<rparr>) ?token = Inr None"
    by (simp add: demo_env_def)
  have c: "artifactExists ?env ?token = Inr True
      \<and> getBuildInfo ?env ?token = Inr (Some demo_build_info)
      \<and> solcVersion demo_build_info \<notin> set [''0.8.20''] \<and> \<not> isOvm demo_bytecode"
    by (simp add: demo_env_def demo_build_info_def demo_bytecode_def)
  have d: "artifactExists ?env ?token = Inr True
      \<and> getBuildInfo ?env ?token = Inr (Some demo_build_info)
      \<and> (solcVersion demo_build_info \<in> set [''0.8.19'']
          \<or> isOvm (demo_bytecode\<lparr>bytecode_hex := ''6001''\<rparr>))
      \<and> normalize ?env (compiledBytecode demo_build_info ?token)
          \<noteq> normalize ?env (bytecode_hex (demo_bytecode\<lparr>bytecode_hex := ''6001''\<rparr>))"
    by (simp add: demo_env_def demo_build_info_def demo_bytecode_def)
  have v: "getVersion demo_bytecode = ''0.8.19''" "hasVersionRange demo_bytecode = False"
    "solcVersion demo_build_info = ''0.8.19''" "networkName ?env = ''sepolia''"
    "networkName (?env\<lparr>getBuildInfo := \<lambda>fqn. Inr None\<rparr>) = ''sepolia''"
    by (simp_all add: demo_env_def demo_build_info_def demo_bytecode_def)
  from a
    named_mode_checks_in_order [where env = ?env and fqn = "''contracts/Gone.sol:Gone''"
      and deployedBytecode = demo_bytecode and matching = "[''0.8.19'']" and libs = "[]"
      and s = "(0, [])"]
  have 1: "GET_CONTRACT_INFORMATION ?env (Some ''contracts/Gone.sol:Gone'') demo_bytecode
      [''0.8.19''] [] (0::nat, []) = (Inl (ContractNotFoundError ''contracts/Gone.sol:Gone''), (0, []))"
    by blast
  from b
    named_mode_checks_in_order [where env = "?env\<lparr>getBuildInfo := \<lambda>fqn. Inr None\<rparr>"
      and fqn = ?token and deployedBytecode = demo_bytecode and matching = "[''0.8.19'']"
      and libs = "[]" and s = "(0, [])"]
  have 2: "GET_CONTRACT_INFORMATION (?env\<lparr>getBuildInfo := \<lambda>fqn. Inr None\<rparr>)
       (Some ?token) demo_bytecode [''0.8.19''] [] (0::nat, []) =
     (Inl (BuildInfoNotFoundError ?token), (0, []))"
    by blast
  from c
    named_mode_checks_in_order [where env = ?env and fqn = ?token and bi = demo_build_info
      and deployedBytecode = demo_bytecode and matching = "[''0.8.20'']" and libs = "[]"
      and s = "(0, [])"]
  have 3: "GET_CONTRACT_INFORMATION ?env (Some ?token) demo_bytecode [''0.8.20''] [] (0::nat, []) =
     (Inl (BuildInfoCompilerVersionMismatchError ?token ''0.8.19'' False
            ''0.8.19'' ''sepolia''), (0, []))"
    by (simp add: v demo_bytecode_def)
  from d
    named_mode_checks_in_order [where env = ?env and fqn = ?token and bi = demo_build_info
      and deployedBytecode = "demo_bytecode\<lparr>bytecode_hex := ''6001''\<rparr>"
      and matching = "[''0.8.19'']" and libs = "[]" and s = "(0, [])"]
  have 4: "GET_CONTRACT_INFORMATION ?env (Some ?token)
       (demo_bytecode\<lparr>bytecode_hex := ''6001''\<rparr>) [''0.8.19''] [] (0::nat, []) =
     (Inl (DeployedBytecodeMismatchError ''sepolia'' ?token), (0, []))"
    by (simp add: v demo_bytecode_def)
  from 1 2 3 4 show ?thesis
    by blast
qed

text \<open>
  Claim C5. When the status read after a submission is neither a failure nor a success,
  the attempt throws \<open>VerificationAPIUnexpectedMessageError\<close> with the message of the
  service. It has then submitted once and asked for the status once, and it returns no
  response, so nothing is taken for a success. Thrown by the attempt on the minimal
  input, the error ends the main task: its trace holds this one attempt and nothing else.
\<close>

theorem unexpected_status_is_an_error:
  assumes "submit vi address input ci enc w = (Inr guid, w1)"
    and "getVerificationStatus vi guid w1 = (Inr st, w2)"
    and "\<not> isFailure st" and "\<not> isSuccess st"
  shows "ATTEMPT_VERIFICATION address input ci vi enc (w, tr) =
           (Inl (VerificationAPIUnexpectedMessageError (status_message st)),
            (w2, tr @ [submission address input ci enc, submitted address ci, Sleep 700,
                       GetVerificationStatus guid]))
       \<and> from_submission address vi ci input enc (w, tr) =
           (Inl (VerificationAPIUnexpectedMessageError (status_message st)),
            (w2, tr @ [Run TASK_VERIFY_ETHERSCAN_ATTEMPT_VERIFICATION,
                       submission address input ci enc, submitted address ci, Sleep 700,
                       GetVerificationStatus guid]))"
proof -
  have a: "ATTEMPT_VERIFICATION address input ci vi enc (w, tr') =
           (Inl (VerificationAPIUnexpectedMessageError (status_message st)),
            (w2, tr' @ [submission address input ci enc, submitted address ci, Sleep 700,
                       GetVerificationStatus guid]))" for tr'
    using assms by (simp add: ATTEMPT_status)
  have "from_submission address vi ci input enc (w, tr) =
           (Inl (VerificationAPIUnexpectedMessageError (status_message st)),
            (w2, (tr @ [Run TASK_VERIFY_ETHERSCAN_ATTEMPT_VERIFICATION]) @
                 [submission address input ci enc, submitted address ci, Sleep 700,
                       GetVerificationStatus guid]))"
    unfolding from_submission_def
    by (rule andThen_Inl) (simp only: run_apply a)
  with a show ?thesis by simp
qed

theorem unexpected_status_is_an_error_witness:
  "submit (demo_client False [''Unknown response''] demo_chain) demo_address demo_minimal_input
      demo_information ''00'' 0 = (Inr ''guid'', 0)
   \<and> getVerificationStatus (demo_client False [''Unknown response''] demo_chain) ''guid'' 0
       = (Inr (demo_status ''Unknown response''), 1)
   \<and> \<not> isFailure (demo_status ''Unknown response'')
   \<and> \<not> isSuccess (demo_status ''Unknown response'')
   \<and> ATTEMPT_VERIFICATION demo_address demo_minimal_input demo_information
        (demo_client False [''Unknown response''] demo_chain) ''00'' (0, []) =
       (Inl (VerificationAPIUnexpectedMessageError ''Unknown response''),
        (1, [submission demo_address demo_minimal_input demo_information ''00'',
             submitted demo_address demo_information, Sleep 700, GetVerificationStatus ''guid'']))
   \<and> from_submission demo_address (demo_client False [''Unknown response''] demo_chain)
        demo_information demo_minimal_input ''00'' (0, []) =
       (Inl (VerificationAPIUnexpectedMessageError ''Unknown response''),
        (1, [Run TASK_VERIFY_ETHERSCAN_ATTEMPT_VERIFICATION,
             submission demo_address demo_minimal_input demo_information ''00'',
             submitted demo_address demo_information, Sleep 700, GetVerificationStatus ''guid'']))"
proof -
  let ?client = "demo_client False [''Unknown response''] demo_chain"
  have h1: "submit ?client demo_address demo_minimal_input demo_information ''00'' 0
            = (Inr ''guid'', 0)"
    by (simp add: submit_def demo_client_def)
  have h2: "getVerificationStatus ?client ''guid'' 0 = (Inr (demo_status ''Unknown response''), 1)"
    by (simp add: demo_client_def)
  have h3: "\<not> isFailure (demo_status ''Unknown response'')"
    by (simp add: demo_status_def)
  have h4: "\<not> isSuccess (demo_status ''Unknown response'')"
    by (simp add: demo_status_def)
  have m: "status_message (demo_status ''Unknown response'') = ''Unknown response''"
    by (simp add: demo_status_def)
  note c = unexpected_status_is_an_error [OF h1 h2 h3 h4, where tr = "[]"]
  show ?thesis
    using h1 h2 h3 h4 c by (simp add: m)
qed

text \<open>
  Claim C6. The events of an attempt are the submission alone (when the service rejects
  it), or the submission, the message that the source was submitted, the pause of 700
  milliseconds and then the request of the status, after which no other request of the
  status follows. The pause is the awaited \<^verbatim>\<open>sleep(700)\<close>, recorded as an event; the time
  that passes is not part of the model.
\<close>

theorem status_check_follows_the_delay:
  "\<exists>w' new. snd (ATTEMPT_VERIFICATION address input ci vi enc (w, tr)) = (w', tr @ new) \<and>
     (new = [submission address input ci enc] \<or>
      (\<exists>guid rest. new = [submission address input ci enc, submitted address ci, Sleep 700,
                           GetVerificationStatus guid] @ rest
                    \<and> list_all (\<lambda>e. \<not> is_status_check e) rest))"
proof -
  obtain r1 w1 where v: "submit vi address input ci enc w = (r1, w1)" by force
  show ?thesis
  proof (cases r1)
    case (Inl x)
    with v show ?thesis
      by (simp add: ATTEMPT_rejected)
  next
    case (Inr guid)
    obtain r2 w2 where g: "getVerificationStatus vi guid w1 = (r2, w2)" by force
    show ?thesis
    proof (cases r2)
      case (Inl x)
      with v g Inr show ?thesis
        by (simp add: ATTEMPT_status_rejected)
    next
      case st: (Inr st)
      with v g Inr show ?thesis
        by (simp add: ATTEMPT_status)
    qed
  qed
qed

theorem status_check_follows_the_delay_witness:
  "ATTEMPT_VERIFICATION demo_address demo_minimal_input demo_information
      (demo_client False [''Fail - Unable to verify''] demo_chain) [] (0, []) =
     (Inr \<lparr>success = False, message = ''Fail - Unable to verify''\<rparr>,
      (1, [submission demo_address demo_minimal_input demo_information [],
           submitted demo_address demo_information, Sleep 700, GetVerificationStatus ''guid'']))
   \<and> (\<exists>w' new. snd (ATTEMPT_VERIFICATION demo_address demo_minimal_input demo_information
          (demo_client False [''Fail - Unable to verify''] demo_chain) [] (0, [])) = (w', [] @ new)
        \<and> (new = [submission demo_address demo_minimal_input demo_information []]
            \<or> (\<exists>guid rest. new = [submission demo_address demo_minimal_input demo_information [],
                    submitted demo_address demo_information, Sleep 700,
                    GetVerificationStatus guid] @ rest
                  \<and> list_all (\<lambda>e. \<not> is_status_check e) rest)))"
proof -
  have "ATTEMPT_VERIFICATION demo_address demo_minimal_input demo_information
      (demo_client False [''Fail - Unable to verify''] demo_chain) [] (0, []) =
     (Inr \<lparr>success = False, message = ''Fail - Unable to verify''\<rparr>,
      (1, [submission demo_address demo_minimal_input demo_information [],
           submitted demo_address demo_information, Sleep 700, GetVerificationStatus ''guid'']))"
    by (simp add: ATTEMPT_VERIFICATION_def task_defs demo_client_def demo_status_def
        submission_def submitted_def Let_def)
  with status_check_follows_the_delay [of demo_address demo_minimal_input demo_information
      "demo_client False [''Fail - Unable to verify''] demo_chain" "[]" 0 "[]"]
  show ?thesis
    by blast
qed



text \<open>
  Claim C8, as the code has it. Every run of the main task on an address (a dispatch
  without an address is refused and does nothing) starts with the dispatch of
  the argument resolution, then asks the chain provider for the chain configuration (the
  explorer client is built from it), then asks the explorer whether the address is
  verified; every other event of the run comes after these three, so the question comes
  before the fetch of the bytecode, the contract information, the minimal input and every
  submission. When the explorer answers that the address is verified, the task returns at
  once: it logs that the contract has already been verified, with the URL of the contract,
  and does nothing else.
\<close>

theorem isVerified_gate:
  "(\<exists>w' new. snd (TASK_VERIFY_ETHERSCAN env taskArgs (w, tr)) = (w', tr @ new) \<and>
     (arg_address taskArgs = None \<and> new = []
      \<or> new = [Run TASK_VERIFY_ETHERSCAN_RESOLVE_ARGUMENTS]
      \<or> new = [Run TASK_VERIFY_ETHERSCAN_RESOLVE_ARGUMENTS,
                GetCurrentChainConfig (networkName env)]
      \<or> (\<exists>a rest. new = [Run TASK_VERIFY_ETHERSCAN_RESOLVE_ARGUMENTS,
                            GetCurrentChainConfig (networkName env), IsVerified a] @ rest)))
   \<and> (fst (RESOLVE_ARGUMENTS env taskArgs (w, tr)) = Inr args
       \<and> getCurrentChainConfig env (networkName env) (customChains env) w = (Inr chainConfig, w1)
       \<and> fromChainConfig env (apiKey env) chainConfig = Inr client
       \<and> isVerified client (va_address args) w1 = (Inr True, w2) \<longrightarrow>
      TASK_VERIFY_ETHERSCAN env taskArgs (w, tr) =
        (Inr (), (w2, tr @ [Run TASK_VERIFY_ETHERSCAN_RESOLVE_ARGUMENTS,
                           GetCurrentChainConfig (networkName env),
                           IsVerified (va_address args),
                           ConsoleLog (AlreadyVerified (va_address args)
                             (getContractUrl client (va_address args)))])))"
proof -
  have "TASK_VERIFY_ETHERSCAN env taskArgs (w, tr) =
        (Inr (), (w2, tr @ [Run TASK_VERIFY_ETHERSCAN_RESOLVE_ARGUMENTS,
                           GetCurrentChainConfig (networkName env),
                           IsVerified (va_address args),
                           ConsoleLog (AlreadyVerified (va_address args)
                             (getContractUrl client (va_address args)))]))"
    if r: "fst (RESOLVE_ARGUMENTS env taskArgs (w, tr)) = Inr args"
      and c: "getCurrentChainConfig env (networkName env) (customChains env) w = (Inr chainConfig, w1)"
      and f: "fromChainConfig env (apiKey env) chainConfig = Inr client"
      and v: "isVerified client (va_address args) w1 = (Inr True, w2)"
    by (simp add: TASK_VERIFY_ETHERSCAN_client [OF r c f] from_isVerified_verified [OF v])
  with TASK_VERIFY_ETHERSCAN_trace [of env taskArgs w tr] show ?thesis
    by blast
qed

theorem isVerified_gate_witness:
  "fst (RESOLVE_ARGUMENTS (demo_env True []) demo_task_args (0, [])) = Inr demo_args
   \<and> getCurrentChainConfig (demo_env True []) ''sepolia'' [] 0 = (Inr demo_chain, 0)
   \<and> fromChainConfig (demo_env True []) ''KEY'' demo_chain = Inr (demo_client True [] demo_chain)
   \<and> isVerified (demo_client True [] demo_chain) demo_address 0 = (Inr True, 0)
   \<and> TASK_VERIFY_ETHERSCAN (demo_env True []) demo_task_args (0, []) =
       (Inr (), (0, [Run TASK_VERIFY_ETHERSCAN_RESOLVE_ARGUMENTS,
                     GetCurrentChainConfig ''sepolia'', IsVerified demo_address,
                     ConsoleLog (AlreadyVerified demo_address
                       ''https://sepolia.etherscan.io/address/0x5FbDB2315678afecb367f032d93F642f64180aa3#code'')]))"
proof -
  let ?env = "demo_env True []"
  have e: "networkName ?env = ''sepolia''" "customChains ?env = []"
    "apiKey ?env = ''KEY''"
    "va_address demo_args = demo_address"
    "getContractUrl (demo_client True [] demo_chain) demo_address =
       ''https://sepolia.etherscan.io/address/0x5FbDB2315678afecb367f032d93F642f64180aa3#code''"
    by (simp_all add: demo_env_def demo_args_def demo_client_def demo_chain_def demo_address_def)
  have a: "fst (RESOLVE_ARGUMENTS ?env demo_task_args (0, [])) = Inr demo_args"
    by (simp add: RESOLVE_ARGUMENTS_def constructorArgs_accepted_def task_defs demo_env_def
        demo_task_args_def demo_args_def demo_address_def)
  have b: "getCurrentChainConfig ?env ''sepolia'' [] 0 = (Inr demo_chain, 0)"
    by (simp add: demo_env_def)
  have c: "isVerified (demo_client True [] demo_chain) demo_address 0 = (Inr True, 0)"
    by (simp add: demo_client_def)
  have f: "fromChainConfig ?env ''KEY'' demo_chain = Inr (demo_client True [] demo_chain)"
    by (simp add: demo_env_def)
  have "TASK_VERIFY_ETHERSCAN ?env demo_task_args (0, []) =
       (Inr (), (0, [Run TASK_VERIFY_ETHERSCAN_RESOLVE_ARGUMENTS,
                     GetCurrentChainConfig ''sepolia'', IsVerified demo_address,
                     ConsoleLog (AlreadyVerified demo_address
                       ''https://sepolia.etherscan.io/address/0x5FbDB2315678afecb367f032d93F642f64180aa3#code'')]))"
    using a b c f isVerified_gate [where env = ?env and taskArgs = demo_task_args and w = 0
        and tr = "[]" and args = demo_args and chainConfig = demo_chain
        and client = "demo_client True [] demo_chain" and ?w1.0 = 0 and ?w2.0 = 0]
    by (simp add: e)
  with a b c f show ?thesis
    by blast
qed

text \<open>
  Claim C8 as stated (the question is asked before anything else that is a request)
  fails: on an address that is already verified the requests of the run are the chain
  configuration, asked through the provider of the network, and only then the question.
\<close>

theorem chain_request_precedes_isVerified:
  "filter is_request (snd (snd (TASK_VERIFY_ETHERSCAN (demo_env True []) demo_task_args (0, []))))
     = [GetCurrentChainConfig ''sepolia'', IsVerified demo_address]"
  by (simp add: workflow_defs task_defs demo_defs Let_def)

text \<open>
  Claim C9. When the list of the supported networks is not asked for and the list of
  the verification subtasks is obtained, the task dispatches every subtask of the list
  exactly once, in the order of the list, whether or not an earlier one threw. An error
  thrown by a subtask is recorded under the name of the subtask (the last one, should a
  name occur twice), and the loop goes on. The task ends the process with exit code 1,
  after handing the recorded errors to be printed, exactly when at least one subtask
  threw; otherwise it returns.
\<close>

theorem every_subtask_is_attempted:
  assumes "\<not> listNetworks taskArgs"
    and "getVerificationSubtasks env w = (Inr subtasks, w1)"
  shows "dispatched (snd (TASK_VERIFY env taskArgs w)) = subtasks
    \<and> hasErrors (snd (TASK_VERIFY env taskArgs w)) =
        list_ex isl (subtask_results env taskArgs subtasks w1)
    \<and> map_of (errors (snd (TASK_VERIFY env taskArgs w))) =
        map_of (rev (thrown_errors subtasks (subtask_results env taskArgs subtasks w1)))
    \<and> fst (TASK_VERIFY env taskArgs w) =
        (if list_ex isl (subtask_results env taskArgs subtasks w1)
         then Exited 1 (errors (snd (TASK_VERIFY env taskArgs w)))
         else Returned)"
proof -
  let ?init = "\<lparr>errors = [], hasErrors = False, world = w1, dispatched = []\<rparr>"
  let ?final = "run_verification_subtasks env taskArgs subtasks ?init"
  have t: "TASK_VERIFY env taskArgs w = (if hasErrors ?final then (Exited 1 (errors ?final), ?final)
      else (Returned, ?final))"
    using assms by (simp add: TASK_VERIFY_def Let_def)
  from run_verification_subtasks_loop [of env taskArgs subtasks ?init]
  show ?thesis
    by (simp add: t)
qed

theorem every_subtask_is_attempted_witness:
  "\<not> listNetworks demo_task_args
   \<and> getVerificationSubtasks demo_dispatcher 0 = (Inr [''verify:etherscan'', ''verify:sourcify''], 0)
   \<and> subtask_results demo_dispatcher demo_task_args [''verify:etherscan'', ''verify:sourcify''] 0
       = [Inl ''MissingAddressError'', Inr ()]
   \<and> dispatched (snd (TASK_VERIFY demo_dispatcher demo_task_args 0))
       = [''verify:etherscan'', ''verify:sourcify'']
   \<and> hasErrors (snd (TASK_VERIFY demo_dispatcher demo_task_args 0))
   \<and> map_of (errors (snd (TASK_VERIFY demo_dispatcher demo_task_args 0))) ''verify:etherscan''
       = Some ''MissingAddressError''
   \<and> fst (TASK_VERIFY demo_dispatcher demo_task_args 0)
       = Exited 1 (errors (snd (TASK_VERIFY demo_dispatcher demo_task_args 0)))"
proof -
  have a: "\<not> listNetworks demo_task_args"
    by (simp add: demo_task_args_def)
  have b: "getVerificationSubtasks demo_dispatcher 0
      = (Inr [''verify:etherscan'', ''verify:sourcify''], 0)"
    by (simp add: demo_dispatcher_def)
  have c: "subtask_results demo_dispatcher demo_task_args
      [''verify:etherscan'', ''verify:sourcify''] 0 = [Inl ''MissingAddressError'', Inr ()]"
    by (simp add: demo_dispatcher_def)
  from every_subtask_is_attempted [OF a b] a b c show ?thesis
    by simp
qed

text \<open>
  Claim C10, as the code has it. The path of the cache file is computed before the
  \<^verbatim>\<open>try\<close> block, and computing it makes the cache directory and the ledger directory:
  when one of the two cannot be made, \<^verbatim>\<open>read\<close> rejects with that error. When both are
  made, \<^verbatim>\<open>read\<close> does not throw: it returns \<^verbatim>\<open>undefined\<close> when the file cannot be
  accessed or cannot be read as JSON, and the parsed contents otherwise.
\<close>

theorem read_swallows_file_errors:
  "(ensureDir io (envPaths_cache io ''hardhat'') fs = (Inl e, fs1) \<longrightarrow>
      read io fs = (Inl e, fs1))
   \<and> (ensureDir io (envPaths_cache io ''hardhat'') fs = (Inr (), fs1)
       \<and> ensureDir io (path_join io (envPaths_cache io ''hardhat'') ''ledger'') fs1 = (Inl e, fs2)
       \<longrightarrow> read io fs = (Inl e, fs2))
   \<and> (ensureDir io (envPaths_cache io ''hardhat'') fs = (Inr (), fs1)
       \<and> ensureDir io (path_join io (envPaths_cache io ''hardhat'') ''ledger'') fs1 = (Inr (), fs2)
       \<longrightarrow>
        (\<exists>v fs'. read io fs = (Inr v, fs'))
        \<and> (access io (path_join io (path_join io (envPaths_cache io ''hardhat'') ''ledger'')
               ''accounts.json'') fs2 = (Inl e, fs3) \<longrightarrow> read io fs = (Inr None, fs3))
        \<and> (access io (path_join io (path_join io (envPaths_cache io ''hardhat'') ''ledger'')
               ''accounts.json'') fs2 = (Inr (), fs3)
            \<and> readJSON io (path_join io (path_join io (envPaths_cache io ''hardhat'') ''ledger'')
               ''accounts.json'') fs3 = (Inl e, fs4) \<longrightarrow> read io fs = (Inr None, fs4))
        \<and> (access io (path_join io (path_join io (envPaths_cache io ''hardhat'') ''ledger'')
               ''accounts.json'') fs2 = (Inr (), fs3)
            \<and> readJSON io (path_join io (path_join io (envPaths_cache io ''hardhat'') ''ledger'')
               ''accounts.json'') fs3 = (Inr json, fs4) \<longrightarrow> read io fs = (Inr (Some json), fs4)))"
  by (auto simp add: read_def getLedgerCacheFile_def getLedgerCacheDir_def getCacheDir_def
      generatePaths_def CACHE_FILE_NAME_def Let_def split: prod.splits sum.splits)

theorem read_swallows_file_errors_witness:
  "read demo_io \<lparr>dirs = [], files = []\<rparr> =
     (Inr None, \<lparr>dirs = [''/home/user/.cache/hardhat-nodejs/ledger'',
                         ''/home/user/.cache/hardhat-nodejs''], files = []\<rparr>)
   \<and> read demo_io \<lparr>dirs = [],
         files = [(''/home/user/.cache/hardhat-nodejs/ledger/accounts.json'', ''not json'')]\<rparr> =
     (Inr None, \<lparr>dirs = [''/home/user/.cache/hardhat-nodejs/ledger'',
                         ''/home/user/.cache/hardhat-nodejs''],
         files = [(''/home/user/.cache/hardhat-nodejs/ledger/accounts.json'', ''not json'')]\<rparr>)
   \<and> read demo_io \<lparr>dirs = [],
         files = [(''/home/user/.cache/hardhat-nodejs/ledger/accounts.json'', ''{}'')]\<rparr> =
     (Inr (Some ''{}''), \<lparr>dirs = [''/home/user/.cache/hardhat-nodejs/ledger'',
                         ''/home/user/.cache/hardhat-nodejs''],
         files = [(''/home/user/.cache/hardhat-nodejs/ledger/accounts.json'', ''{}'')]\<rparr>)
   \<and> read demo_io \<lparr>dirs = [], files = [(''/home/user/.cache/hardhat-nodejs'', ''notes'')]\<rparr> =
     (Inl ''ENOTDIR'', \<lparr>dirs = [], files = [(''/home/user/.cache/hardhat-nodejs'', ''notes'')]\<rparr>)"
proof -
  let ?cache = "''/home/user/.cache/hardhat-nodejs''"
  let ?ledger = "''/home/user/.cache/hardhat-nodejs/ledger''"
  let ?file = "''/home/user/.cache/hardhat-nodejs/ledger/accounts.json''"
  have p: "envPaths_cache demo_io ''hardhat'' = ?cache"
    "path_join demo_io ?cache ''ledger'' = ?ledger"
    "path_join demo_io ?ledger ''accounts.json'' = ?file"
    by (simp_all add: demo_io_def)
  have d: "ensureDir demo_io ?cache \<lparr>dirs = [], files = fl\<rparr> =
      (if map_of fl ?cache \<noteq> None then (Inl ''ENOTDIR'', \<lparr>dirs = [], files = fl\<rparr>)
       else (Inr (), \<lparr>dirs = [?cache], files = fl\<rparr>))"
    "ensureDir demo_io ?ledger \<lparr>dirs = [?cache], files = fl\<rparr> =
      (if map_of fl ?ledger \<noteq> None then (Inl ''ENOTDIR'', \<lparr>dirs = [?cache], files = fl\<rparr>)
       else (Inr (), \<lparr>dirs = [?ledger, ?cache], files = fl\<rparr>))"
    "access demo_io ?file \<lparr>dirs = [?ledger, ?cache], files = fl\<rparr> =
      (if map_of fl ?file = None then Inl ''ENOENT'' else Inr (),
       \<lparr>dirs = [?ledger, ?cache], files = fl\<rparr>)"
    "readJSON demo_io ?file \<lparr>dirs = [?ledger, ?cache], files = fl\<rparr> =
      (case map_of fl ?file of None \<Rightarrow> Inl ''ENOENT''
        | Some content \<Rightarrow> if take 1 content = ''{'' then Inr content else Inl ''SyntaxError'',
       \<lparr>dirs = [?ledger, ?cache], files = fl\<rparr>)" for fl
    by (simp_all add: demo_io_def)
  have 1: "read demo_io \<lparr>dirs = [], files = []\<rparr> =
     (Inr None, \<lparr>dirs = [?ledger, ?cache], files = []\<rparr>)"
    using read_swallows_file_errors [where io = demo_io and fs = "\<lparr>dirs = [], files = []\<rparr>"
        and ?fs1.0 = "\<lparr>dirs = [?cache], files = []\<rparr>"
        and ?fs2.0 = "\<lparr>dirs = [?ledger, ?cache], files = []\<rparr>"
        and ?fs3.0 = "\<lparr>dirs = [?ledger, ?cache], files = []\<rparr>" and e = "''ENOENT''"]
    by (simp add: p d)
  have 2: "read demo_io \<lparr>dirs = [], files = [(?file, ''not json'')]\<rparr> =
     (Inr None, \<lparr>dirs = [?ledger, ?cache], files = [(?file, ''not json'')]\<rparr>)"
    using read_swallows_file_errors [where io = demo_io
        and fs = "\<lparr>dirs = [], files = [(?file, ''not json'')]\<rparr>"
        and ?fs1.0 = "\<lparr>dirs = [?cache], files = [(?file, ''not json'')]\<rparr>"
        and ?fs2.0 = "\<lparr>dirs = [?ledger, ?cache], files = [(?file, ''not json'')]\<rparr>"
        and ?fs3.0 = "\<lparr>dirs = [?ledger, ?cache], files = [(?file, ''not json'')]\<rparr>"
        and ?fs4.0 = "\<lparr>dirs = [?ledger, ?cache], files = [(?file, ''not json'')]\<rparr>"
        and e = "''SyntaxError''"]
    by (simp add: p d)
  have 3: "read demo_io \<lparr>dirs = [], files = [(?file, ''{}'')]\<rparr> =
     (Inr (Some ''{}''), \<lparr>dirs = [?ledger, ?cache], files = [(?file, ''{}'')]\<rparr>)"
    using read_swallows_file_errors [where io = demo_io
        and fs = "\<lparr>dirs = [], files = [(?file, ''{}'')]\<rparr>"
        and ?fs1.0 = "\<lparr>dirs = [?cache], files = [(?file, ''{}'')]\<rparr>"
        and ?fs2.0 = "\<lparr>dirs = [?ledger, ?cache], files = [(?file, ''{}'')]\<rparr>"
        and ?fs3.0 = "\<lparr>dirs = [?ledger, ?cache], files = [(?file, ''{}'')]\<rparr>"
        and ?fs4.0 = "\<lparr>dirs = [?ledger, ?cache], files = [(?file, ''{}'')]\<rparr>"
        and json = "''{}''"]
    by (simp add: p d)
  have 4: "read demo_io \<lparr>dirs = [], files = [(?cache, ''notes'')]\<rparr> =
     (Inl ''ENOTDIR'', \<lparr>dirs = [], files = [(?cache, ''notes'')]\<rparr>)"
    using read_swallows_file_errors [where io = demo_io
        and fs = "\<lparr>dirs = [], files = [(?cache, ''notes'')]\<rparr>"
        and ?fs1.0 = "\<lparr>dirs = [], files = [(?cache, ''notes'')]\<rparr>"
        and e = "''ENOTDIR''"]
    by (simp add: p d)
  from 1 2 3 4 show ?thesis
    by blast
qed

text \<open>
  Claim C10 as stated (the read never throws, in every state of the file system) fails
  where a file stands in the place of the ledger directory: the directory cannot be made
  and the read rejects.
\<close>

theorem read_may_throw:
  "read demo_io \<lparr>dirs = [], files = [(''/home/user/.cache/hardhat-nodejs/ledger'', ''notes'')]\<rparr>
     = (Inl ''ENOTDIR'',
        \<lparr>dirs = [''/home/user/.cache/hardhat-nodejs''],
         files = [(''/home/user/.cache/hardhat-nodejs/ledger'', ''notes'')]\<rparr>)"
  by (simp add: read_def getLedgerCacheFile_def getLedgerCacheDir_def getCacheDir_def
      generatePaths_def CACHE_FILE_NAME_def Let_def demo_io_def)

end
